theory Spec2Isabelle
  imports Complex_Main "HOL-Library.Word" "HOL-Library.Log_Nat"
begin

section \<open>Sherwood decision forests: statistics aggregators, training contexts, forest header\<close>

text \<open>
  The development embeds the demo aggregators (\<^verbatim>\<open>StatisticsAggregators.h/.cpp\<close>), the four
  training contexts (\<^verbatim>\<open>Classification.h\<close>, \<^verbatim>\<open>DensityEstimation.h\<close>, \<^verbatim>\<open>Regression.h\<close>,
  \<^verbatim>\<open>SemiSupervisedClassification.h\<close>) and the header check of \<^verbatim>\<open>Forest::Deserialize\<close>.

  Integers are machine integers: \<^verbatim>\<open>unsigned int\<close> is \<^typ>\<open>32 word\<close>, \<^verbatim>\<open>unsigned short\<close> is
  \<^typ>\<open>16 word\<close>, both wrapping. A C++ \<^verbatim>\<open>double\<close> (and \<^verbatim>\<open>float\<close>) that is the result of a
  division or a logarithm is a value of the type \<open>dbl\<close> below: a real number, \<open>+\<infinity>\<close>,
  \<open>-\<infinity>\<close> or NaN, with the IEEE-754 rules for the three special values. Arithmetic on
  finite \<^verbatim>\<open>double\<close> values is exact: rounding in \<^verbatim>\<open>double\<close>, overflow to infinity and the
  sign of zero are not modelled (every zero is \<open>+0\<close>). Sample coordinates, targets and the
  running sums of an aggregator are finite, hence reals. A product of two \<^verbatim>\<open>float\<close>
  operands, however, is formed in single precision before it is added to a \<^verbatim>\<open>double\<close> sum:
  it is the exact product rounded to 24 significant bits (\<open>float_mul\<close> below).
  Out-of-bounds array accesses, which are undefined
  behaviour in C++, are the error value \<open>UndefinedBehaviour\<close>; a failed \<^verbatim>\<open>assert\<close> is
  \<open>AssertionFailure\<close>; a thrown \<^verbatim>\<open>std::runtime_error\<close> is \<open>RuntimeError\<close> with its message.
\<close>

subsection \<open>Doubles\<close>

datatype dbl = Fin real | PInf | NInf | NaN

instantiation dbl :: "{plus, uminus, minus, times, inverse, ord}"
begin

fun plus_dbl :: "dbl \<Rightarrow> dbl \<Rightarrow> dbl" where
  "plus_dbl NaN _ = NaN"
| "plus_dbl _ NaN = NaN"
| "plus_dbl (Fin a) (Fin b) = Fin (a + b)"
| "plus_dbl PInf NInf = NaN"
| "plus_dbl NInf PInf = NaN"
| "plus_dbl PInf _ = PInf"
| "plus_dbl _ PInf = PInf"
| "plus_dbl NInf _ = NInf"
| "plus_dbl _ NInf = NInf"

fun uminus_dbl :: "dbl \<Rightarrow> dbl" where
  "uminus_dbl (Fin a) = Fin (- a)"
| "uminus_dbl PInf = NInf"
| "uminus_dbl NInf = PInf"
| "uminus_dbl NaN = NaN"

definition minus_dbl :: "dbl \<Rightarrow> dbl \<Rightarrow> dbl" where
  "minus_dbl a b = a + (- b)"

text \<open>The sign of an infinite product or quotient: \<open>s\<close> is the sign of the other operand.\<close>

definition signed_inf :: "bool \<Rightarrow> real \<Rightarrow> dbl" where
  "signed_inf positive s =
     (if s = 0 then NaN else if (0 < s) = positive then PInf else NInf)"

fun times_dbl :: "dbl \<Rightarrow> dbl \<Rightarrow> dbl" where
  "times_dbl NaN _ = NaN"
| "times_dbl _ NaN = NaN"
| "times_dbl (Fin a) (Fin b) = Fin (a * b)"
| "times_dbl (Fin a) PInf = signed_inf True a"
| "times_dbl (Fin a) NInf = signed_inf False a"
| "times_dbl PInf (Fin b) = signed_inf True b"
| "times_dbl NInf (Fin b) = signed_inf False b"
| "times_dbl PInf PInf = PInf"
| "times_dbl NInf NInf = PInf"
| "times_dbl PInf NInf = NInf"
| "times_dbl NInf PInf = NInf"

fun divide_dbl :: "dbl \<Rightarrow> dbl \<Rightarrow> dbl" where
  "divide_dbl NaN _ = NaN"
| "divide_dbl _ NaN = NaN"
| "divide_dbl (Fin a) (Fin b) = (if b = 0 then signed_inf True a else Fin (a / b))"
| "divide_dbl (Fin a) _ = Fin 0"
| "divide_dbl PInf (Fin b) = (if 0 \<le> b then PInf else NInf)"
| "divide_dbl NInf (Fin b) = (if 0 \<le> b then NInf else PInf)"
| "divide_dbl _ _ = NaN"

definition inverse_dbl :: "dbl \<Rightarrow> dbl" where
  "inverse_dbl a = divide (Fin 1) a"

fun less_dbl :: "dbl \<Rightarrow> dbl \<Rightarrow> bool" where
  "less_dbl NaN _ = False"
| "less_dbl _ NaN = False"
| "less_dbl (Fin a) (Fin b) = (a < b)"
| "less_dbl _ NInf = False"
| "less_dbl NInf _ = True"
| "less_dbl PInf _ = False"
| "less_dbl _ PInf = True"

fun less_eq_dbl :: "dbl \<Rightarrow> dbl \<Rightarrow> bool" where
  "less_eq_dbl NaN _ = False"
| "less_eq_dbl _ NaN = False"
| "less_eq_dbl (Fin a) (Fin b) = (a \<le> b)"
| "less_eq_dbl NInf _ = True"
| "less_eq_dbl _ PInf = True"
| "less_eq_dbl _ _ = False"

instance ..

end

text \<open>The comparison \<^verbatim>\<open>==\<close> of C++: false as soon as one side is NaN.\<close>

fun deq :: "dbl \<Rightarrow> dbl \<Rightarrow> bool" where
  "deq NaN _ = False"
| "deq _ NaN = False"
| "deq a b = (a = b)"

text \<open>\<^verbatim>\<open>log\<close> of \<^verbatim>\<open>math.h\<close>: \<open>-\<infinity>\<close> at zero, NaN below.\<close>

fun dlog :: "dbl \<Rightarrow> dbl" where
  "dlog (Fin x) = (if 0 < x then Fin (ln x) else if x = 0 then NInf else NaN)"
| "dlog PInf = PInf"
| "dlog NInf = NaN"
| "dlog NaN = NaN"

text \<open>The conversions \<^verbatim>\<open>(double) u\<close> of an unsigned integer.\<close>

definition of_uint :: "32 word \<Rightarrow> dbl" where
  "of_uint n = Fin (real (unat n))"

definition of_ushort :: "16 word \<Rightarrow> dbl" where
  "of_ushort n = Fin (real (unat n))"

subsection \<open>Errors\<close>

datatype error = RuntimeError string | AssertionFailure | UndefinedBehaviour

text \<open>
  A member function that changes its object returns \<open>Inr\<close> of the new state, or \<open>Inl e\<close> when
  it fails with \<open>e\<close> before it has changed anything. The one function that can fail after a
  change, \<^verbatim>\<open>SemiSupervisedClassificationStatisticsAggregator::Aggregate\<close>, has an outcome
  type of its own below.
\<close>

subsection \<open>Single-precision products\<close>

text \<open>
  \<^verbatim>\<open>data_\<close> and \<^verbatim>\<open>targets_\<close> are vectors of \<^verbatim>\<open>float\<close>, so an expression such as
  \<^verbatim>\<open>datum[0] * datum[1]\<close> is a \<^verbatim>\<open>float\<close> multiplication: the exact product rounded to the
  nearest number with a 24-bit significand, ties to the even significand. For
  \<open>2\<^sup>k \<le> \<bar>x\<bar> < 2\<^sup>k\<^sup>+\<^sup>1\<close> these numbers are the multiples of \<open>2\<^sup>k\<^sup>-\<^sup>2\<^sup>3\<close>. The bounded exponent
  range of \<^verbatim>\<open>float\<close> (overflow to infinity, subnormal numbers) is not modelled.
\<close>

text \<open>Rounding to the nearest integer, a tie to the even one.\<close>

definition round_half_even :: "real \<Rightarrow> int" where
  "round_half_even r =
     (let f = \<lfloor>r\<rfloor>
      in if r - of_int f < 1 / 2 then f
         else if 1 / 2 < r - of_int f then f + 1
         else if even f then f else f + 1)"

text \<open>
  The exponent \<open>k\<close> with \<open>2\<^sup>k \<le> \<bar>x\<bar> < 2\<^sup>k\<^sup>+\<^sup>1\<close> of a non-zero \<open>x\<close>, that is \<open>\<lfloor>log\<^sub>2 \<bar>x\<bar>\<rfloor>\<close>, computed
  on integers: \<open>bitlen m\<close> is the number of binary digits of \<open>m\<close>. The distance
  between two neighbouring \<^verbatim>\<open>float\<close> numbers of exponent \<open>k\<close> is \<open>2\<^sup>k\<^sup>-\<^sup>2\<^sup>3\<close>.
\<close>

definition binade :: "real \<Rightarrow> int" where
  "binade x =
     (if 1 \<le> \<bar>x\<bar> then bitlen \<lfloor>\<bar>x\<bar>\<rfloor> - 1
      else - bitlen (\<lceil>1 / \<bar>x\<bar>\<rceil> - 1))"

definition ulp :: "int \<Rightarrow> real" where
  "ulp k = (if 23 \<le> k then 2 ^ nat (k - 23) else 1 / 2 ^ nat (23 - k))"

definition float_round :: "real \<Rightarrow> real" where
  "float_round x =
     (if x = 0 then 0
      else ulp (binade x) * of_int (round_half_even (x / ulp (binade x))))"

definition float_mul :: "real \<Rightarrow> real \<Rightarrow> real" where
  "float_mul x y = float_round (x * y)"

subsection \<open>DataPointCollection\<close>

record DataPointCollection =
  data :: "real list"
  dimension :: nat
  labels :: "int list"
  targets :: "real list"

definition UnknownClassLabel :: int where
  "UnknownClassLabel = - 1"

definition HasLabels :: "DataPointCollection \<Rightarrow> bool" where
  "HasLabels d = (length (labels d) \<noteq> 0)"

definition GetIntegerLabel :: "DataPointCollection \<Rightarrow> nat \<Rightarrow> error + int" where
  "GetIntegerLabel d i =
     (if \<not> HasLabels d then Inl (RuntimeError ''Data have no associated class labels.'')
      else if i < length (labels d) then Inr (labels d ! i)
      else Inl UndefinedBehaviour)"

text \<open>\<^verbatim>\<open>GetDataPoint(i)[j]\<close>, the read of \<^verbatim>\<open>data_[i*dimension_ + j]\<close>.\<close>

definition GetDataPoint :: "DataPointCollection \<Rightarrow> nat \<Rightarrow> nat \<Rightarrow> error + real" where
  "GetDataPoint d i j =
     (if i * dimension d + j < length (data d) then Inr (data d ! (i * dimension d + j))
      else Inl UndefinedBehaviour)"

subsection \<open>HistogramAggregator\<close>

record HistogramAggregator =
  bins :: "16 word list"
  binCount :: int
  h_sampleCount :: "32 word"

text \<open>
  The constructor zeroes the first \<open>nClasses\<close> bins only; \<open>mem\<close> is the content of the
  four slots of the uninitialised storage the object is built in.
\<close>

definition HistogramAggregator_new :: "16 word list \<Rightarrow> int \<Rightarrow> error + HistogramAggregator" where
  "HistogramAggregator_new mem nClasses =
     (if nClasses > 4
      then Inl (RuntimeError ''HistogramAggregator supports a maximum of four classes.'')
      else Inr \<lparr>bins = foldl (\<lambda>bs b. bs[b := 0]) mem [0 ..< nat nClasses],
                binCount = nClasses, h_sampleCount = 0\<rparr>)"

definition BinCount :: "HistogramAggregator \<Rightarrow> int" where
  "BinCount h = binCount h"

definition Histogram_SampleCount :: "HistogramAggregator \<Rightarrow> 32 word" where
  "Histogram_SampleCount h = h_sampleCount h"

text \<open>The body of the loop of \<^verbatim>\<open>Entropy\<close> for bin \<open>b\<close>, and the loop itself.\<close>

definition entropy_step :: "HistogramAggregator \<Rightarrow> dbl \<Rightarrow> nat \<Rightarrow> dbl" where
  "entropy_step h result b =
     (let p = of_ushort (bins h ! b) / of_uint (h_sampleCount h)
      in result - (if deq p (Fin 0) then Fin 0 else p * dlog p / dlog (Fin 2)))"

definition Histogram_Entropy :: "HistogramAggregator \<Rightarrow> dbl" where
  "Histogram_Entropy h =
     (if h_sampleCount h = 0 then Fin 0
      else foldl (entropy_step h) (Fin 0) [0 ..< nat (BinCount h)])"

definition Histogram_GetProbability :: "HistogramAggregator \<Rightarrow> nat \<Rightarrow> dbl" where
  "Histogram_GetProbability h classIndex =
     of_ushort (bins h ! classIndex) / of_uint (h_sampleCount h)"

definition Histogram_Clear :: "HistogramAggregator \<Rightarrow> HistogramAggregator" where
  "Histogram_Clear h =
     h\<lparr>bins := foldl (\<lambda>bs b. bs[b := 0]) (bins h) [0 ..< nat (BinCount h)],
       h_sampleCount := 0\<rparr>"

definition Histogram_Aggregate ::
  "DataPointCollection \<Rightarrow> nat \<Rightarrow> HistogramAggregator \<Rightarrow> error + HistogramAggregator" where
  "Histogram_Aggregate d index h =
     (case GetIntegerLabel d index of
        Inl e \<Rightarrow> Inl e
      | Inr l \<Rightarrow>
          if 0 \<le> l \<and> l < 4
          then Inr (h\<lparr>bins := (bins h)[nat l := bins h ! nat l + 1],
                      h_sampleCount := h_sampleCount h + 1\<rparr>)
          else Inl UndefinedBehaviour)"

text \<open>Folding the samples at the indices \<open>is\<close>, in order, stopping at the first error.\<close>

fun Histogram_AggregateAll ::
  "DataPointCollection \<Rightarrow> nat list \<Rightarrow> HistogramAggregator \<Rightarrow> error + HistogramAggregator" where
  "Histogram_AggregateAll d [] h = Inr h"
| "Histogram_AggregateAll d (i # is) h =
     (case Histogram_Aggregate d i h of
        Inl e \<Rightarrow> Inl e
      | Inr h' \<Rightarrow> Histogram_AggregateAll d is h')"

subsection \<open>GaussianPdf2d\<close>

record GaussianPdf2d =
  mean_x :: dbl
  mean_y :: dbl
  Sigma_11 :: dbl
  Sigma_12 :: dbl
  Sigma_22 :: dbl
  inv_Sigma_11 :: dbl
  inv_Sigma_12 :: dbl
  inv_Sigma_22 :: dbl
  det_Sigma :: dbl
  log_det_Sigma :: dbl

definition GaussianPdf2d_new ::
  "dbl \<Rightarrow> dbl \<Rightarrow> dbl \<Rightarrow> dbl \<Rightarrow> dbl \<Rightarrow> error + GaussianPdf2d" where
  "GaussianPdf2d_new mu_x mu_y S11 S12 S22 =
     (let det = S11 * S22 - S12 * S12
      in if det < Fin 0
         then Inl (RuntimeError ''Gaussian covaraince matrix must have determinant>0.0.'')
         else Inr \<lparr>mean_x = mu_x, mean_y = mu_y,
                   Sigma_11 = S11, Sigma_12 = S12, Sigma_22 = S22,
                   inv_Sigma_11 = S22 / det, inv_Sigma_12 = - S12 / det,
                   inv_Sigma_22 = S11 / det,
                   det_Sigma = det, log_det_Sigma = dlog det\<rparr>)"

definition MeanX :: "GaussianPdf2d \<Rightarrow> dbl" where
  "MeanX p = mean_x p"

definition MeanY :: "GaussianPdf2d \<Rightarrow> dbl" where
  "MeanY p = mean_y p"

definition VarianceX :: "GaussianPdf2d \<Rightarrow> dbl" where
  "VarianceX p = Sigma_11 p"

definition VarianceY :: "GaussianPdf2d \<Rightarrow> dbl" where
  "VarianceY p = Sigma_22 p"

definition CovarianceXY :: "GaussianPdf2d \<Rightarrow> dbl" where
  "CovarianceXY p = Sigma_12 p"

definition GaussianPdf2d_Entropy :: "GaussianPdf2d \<Rightarrow> dbl" where
  "GaussianPdf2d_Entropy p =
     (let determinant = Sigma_11 p * Sigma_22 p - Sigma_12 p * Sigma_12 p
      in if determinant \<le> Fin 0 then PInf
         else Fin 0.5 * dlog (Fin ((2.0 * 3.141593 * 2.718282)\<^sup>2) * determinant))"

subsection \<open>GaussianAggregator2d\<close>

record GaussianAggregator2d =
  g_sampleCount :: "32 word"
  g_sx :: real
  g_sy :: real
  g_sxx :: real
  g_syy :: real
  g_sxy :: real
  g_a :: real
  g_b :: real

text \<open>
  The constructor: the \<^verbatim>\<open>assert\<close> on the hyperparameters, then the two clamps.
\<close>

definition GaussianAggregator2d_new :: "real \<Rightarrow> real \<Rightarrow> error + GaussianAggregator2d" where
  "GaussianAggregator2d_new a b =
     (if \<not> (a \<ge> 0.0 \<and> b \<ge> 0.0) then Inl AssertionFailure
      else Inr \<lparr>g_sampleCount = 0, g_sx = 0, g_sy = 0, g_sxx = 0, g_syy = 0, g_sxy = 0,
                g_a = (if a < 0.001 then 0.001 else a),
                g_b = (if b < 1 then 1.0 else b)\<rparr>)"

definition Gaussian_SampleCount :: "GaussianAggregator2d \<Rightarrow> 32 word" where
  "Gaussian_SampleCount g = g_sampleCount g"

text \<open>
  The maximum-likelihood covariance as \<^verbatim>\<open>GetPdf\<close> computes it. The divisor
  \<^verbatim>\<open>(sampleCount_ * sampleCount_)\<close> is a product of two \<^verbatim>\<open>unsigned int\<close>, taken modulo
  \<open>2\<^sup>3\<^sup>2\<close> before it is converted to \<^verbatim>\<open>double\<close>.
\<close>

definition ml_cov :: "GaussianAggregator2d \<Rightarrow> real \<Rightarrow> real \<Rightarrow> real \<Rightarrow> dbl" where
  "ml_cov g sab sa sb =
     Fin sab / of_uint (g_sampleCount g)
       - Fin (sa * sb) / of_uint (g_sampleCount g * g_sampleCount g)"

definition prior_alpha :: "GaussianAggregator2d \<Rightarrow> dbl" where
  "prior_alpha g = of_uint (g_sampleCount g) / (of_uint (g_sampleCount g) + Fin (g_a g))"

text \<open>The entries \<^verbatim>\<open>vxx\<close>, \<^verbatim>\<open>vyy\<close>, \<^verbatim>\<open>vxy\<close> after the adaptation by the conjugate prior.\<close>

definition blended_vxx :: "GaussianAggregator2d \<Rightarrow> dbl" where
  "blended_vxx g =
     prior_alpha g * ml_cov g (g_sxx g) (g_sx g) (g_sx g)
       + (Fin 1 - prior_alpha g) * Fin (g_b g)"

definition blended_vyy :: "GaussianAggregator2d \<Rightarrow> dbl" where
  "blended_vyy g =
     prior_alpha g * ml_cov g (g_syy g) (g_sy g) (g_sy g)
       + (Fin 1 - prior_alpha g) * Fin (g_b g)"

definition blended_vxy :: "GaussianAggregator2d \<Rightarrow> dbl" where
  "blended_vxy g = prior_alpha g * ml_cov g (g_sxy g) (g_sx g) (g_sy g)"

definition GetPdf :: "GaussianAggregator2d \<Rightarrow> error + GaussianPdf2d" where
  "GetPdf g =
     (let mx = Fin (g_sx g) / of_uint (g_sampleCount g);
          my = Fin (g_sy g) / of_uint (g_sampleCount g)
      in GaussianPdf2d_new mx my (blended_vxx g) (blended_vxy g) (blended_vyy g))"

definition Gaussian_Clear :: "GaussianAggregator2d \<Rightarrow> GaussianAggregator2d" where
  "Gaussian_Clear g =
     g\<lparr>g_sx := 0, g_sy := 0, g_sxx := 0, g_syy := 0, g_sxy := 0, g_sampleCount := 0\<rparr>"

text \<open>
  Folding the point \<open>(x, y)\<close> into the running sums. The squares are
  \<^verbatim>\<open>pow((double)x, 2.0)\<close>, formed in \<^verbatim>\<open>double\<close>, where the square of a \<^verbatim>\<open>float\<close> is exact; the mixed
  product \<^verbatim>\<open>x * y\<close> is a \<^verbatim>\<open>float\<close> multiplication.
\<close>

definition Gaussian_add :: "real \<Rightarrow> real \<Rightarrow> GaussianAggregator2d \<Rightarrow> GaussianAggregator2d" where
  "Gaussian_add x y g =
     g\<lparr>g_sx := g_sx g + x, g_sy := g_sy g + y,
       g_sxx := g_sxx g + x\<^sup>2, g_syy := g_syy g + y\<^sup>2,
       g_sxy := g_sxy g + float_mul x y,
       g_sampleCount := g_sampleCount g + 1\<rparr>"

definition Gaussian_Aggregate ::
  "DataPointCollection \<Rightarrow> nat \<Rightarrow> GaussianAggregator2d \<Rightarrow> error + GaussianAggregator2d" where
  "Gaussian_Aggregate d index g =
     (case GetDataPoint d index 0 of
        Inl e \<Rightarrow> Inl e
      | Inr x \<Rightarrow>
          (case GetDataPoint d index 1 of
             Inl e \<Rightarrow> Inl e
           | Inr y \<Rightarrow> Inr (Gaussian_add x y g)))"

fun Gaussian_AggregateAll ::
  "DataPointCollection \<Rightarrow> nat list \<Rightarrow> GaussianAggregator2d \<Rightarrow> error + GaussianAggregator2d" where
  "Gaussian_AggregateAll d [] g = Inr g"
| "Gaussian_AggregateAll d (i # is) g =
     (case Gaussian_Aggregate d i g of
        Inl e \<Rightarrow> Inl e
      | Inr g' \<Rightarrow> Gaussian_AggregateAll d is g')"

definition Gaussian_Merge :: "GaussianAggregator2d \<Rightarrow> GaussianAggregator2d \<Rightarrow> GaussianAggregator2d" where
  "Gaussian_Merge aggregator g =
     g\<lparr>g_sx := g_sx g + g_sx aggregator, g_sy := g_sy g + g_sy aggregator,
       g_sxx := g_sxx g + g_sxx aggregator, g_syy := g_syy g + g_syy aggregator,
       g_sxy := g_sxy g + g_sxy aggregator,
       g_sampleCount := g_sampleCount g + g_sampleCount aggregator\<rparr>"

subsection \<open>LinearFitAggregator1d\<close>

record LinearFitAggregator1d =
  l_sampleCount :: "32 word"
  XT_X_11 :: real
  XT_X_12 :: real
  XT_X_21 :: real
  XT_X_22 :: real
  XT_Y_1 :: real
  XT_Y_2 :: real
  Y2 :: real

text \<open>The constants of \<^verbatim>\<open>Regression.cpp\<close>.\<close>

definition Pi :: real where
  "Pi = 3.1415926535897932384626433832795"

definition E :: real where
  "E = 2.7182818284590452353602874713527"

definition LinearFit_Entropy :: "LinearFitAggregator1d \<Rightarrow> dbl" where
  "LinearFit_Entropy s =
     (if l_sampleCount s < 3 then PInf
      else let determinant = XT_X_11 s * XT_X_22 s - XT_X_12 s * XT_X_12 s
           in if determinant = 0.0 then PInf
              else Fin 0.5 * dlog (Fin ((2.0 * Pi * E)\<^sup>2) * Fin determinant))"

definition LinearFit_SampleCount :: "LinearFitAggregator1d \<Rightarrow> 32 word" where
  "LinearFit_SampleCount s = l_sampleCount s"

definition LinearFit_Clear :: "LinearFitAggregator1d \<Rightarrow> LinearFitAggregator1d" where
  "LinearFit_Clear s =
     s\<lparr>XT_X_11 := 0, XT_X_12 := 0, XT_X_21 := 0, XT_X_22 := 0,
       XT_Y_1 := 0, XT_Y_2 := 0, Y2 := 0, l_sampleCount := 0\<rparr>"

definition GetTarget :: "DataPointCollection \<Rightarrow> nat \<Rightarrow> error + real" where
  "GetTarget d i =
     (if \<not> (length (targets d) \<noteq> 0)
      then Inl (RuntimeError ''Data have no associated target values.'')
      else if i < length (targets d) then Inr (targets d ! i)
      else Inl UndefinedBehaviour)"

text \<open>
  Folding the point \<open>x\<close> with target \<open>t\<close> into the sums. The three products
  \<^verbatim>\<open>datum[0] * datum[0]\<close>, \<^verbatim>\<open>datum[0] * target\<close> and \<^verbatim>\<open>target * target\<close> are \<^verbatim>\<open>float\<close>
  multiplications.
\<close>

definition LinearFit_add :: "real \<Rightarrow> real \<Rightarrow> LinearFitAggregator1d \<Rightarrow> LinearFitAggregator1d" where
  "LinearFit_add x t s =
     s\<lparr>XT_X_11 := XT_X_11 s + float_mul x x, XT_X_12 := XT_X_12 s + x,
       XT_X_21 := XT_X_21 s + x, XT_X_22 := XT_X_22 s + 1.0,
       XT_Y_1 := XT_Y_1 s + float_mul x t, XT_Y_2 := XT_Y_2 s + t,
       Y2 := Y2 s + float_mul t t,
       l_sampleCount := l_sampleCount s + 1\<rparr>"

definition LinearFit_Aggregate ::
  "DataPointCollection \<Rightarrow> nat \<Rightarrow> LinearFitAggregator1d \<Rightarrow> error + LinearFitAggregator1d" where
  "LinearFit_Aggregate d index s =
     (case GetTarget d index of
        Inl e \<Rightarrow> Inl e
      | Inr t \<Rightarrow>
          (case GetDataPoint d index 0 of
             Inl e \<Rightarrow> Inl e
           | Inr x \<Rightarrow> Inr (LinearFit_add x t s)))"

fun LinearFit_AggregateAll ::
  "DataPointCollection \<Rightarrow> nat list \<Rightarrow> LinearFitAggregator1d \<Rightarrow> error + LinearFitAggregator1d" where
  "LinearFit_AggregateAll d [] s = Inr s"
| "LinearFit_AggregateAll d (i # is) s =
     (case LinearFit_Aggregate d i s of
        Inl e \<Rightarrow> Inl e
      | Inr s' \<Rightarrow> LinearFit_AggregateAll d is s')"

subsection \<open>SemiSupervisedClassificationStatisticsAggregator\<close>

record SemiSupervisedClassificationStatisticsAggregator =
  nClasses :: int
  ss_a :: real
  ss_b :: real
  gaussianAggregator2d :: GaussianAggregator2d
  histogramAggregator :: HistogramAggregator

definition GetGaussianAggregator2d ::
  "SemiSupervisedClassificationStatisticsAggregator \<Rightarrow> GaussianAggregator2d" where
  "GetGaussianAggregator2d s = gaussianAggregator2d s"

definition GetHistogramAggregator ::
  "SemiSupervisedClassificationStatisticsAggregator \<Rightarrow> HistogramAggregator" where
  "GetHistogramAggregator s = histogramAggregator s"

text \<open>
  \<^verbatim>\<open>Aggregate(data, index)\<close> updates the object in place in two steps, and the second step
  can fail after the first has been done. An outcome therefore carries the state of the
  object in both cases: \<open>Returned s'\<close> when the call returns, \<open>Raised e s'\<close> when it fails
  with \<open>e\<close> and leaves the object as \<open>s'\<close> (for \<open>UndefinedBehaviour\<close>: the state in which
  the undefined access happens).
\<close>

datatype 'a outcome = Returned 'a | Raised error 'a

text \<open>
  The Gaussian first, then the label is read and, when it is not
  \<^verbatim>\<open>UnknownClassLabel\<close>, the histogram. \<^verbatim>\<open>GetIntegerLabel\<close> and \<^verbatim>\<open>HistogramAggregator::Aggregate\<close>
  fail before they change anything, so a failure of either leaves the object with the
  Gaussian updated and the histogram as it was.
\<close>

definition SemiSupervised_Aggregate ::
  "DataPointCollection \<Rightarrow> nat \<Rightarrow> SemiSupervisedClassificationStatisticsAggregator
     \<Rightarrow> SemiSupervisedClassificationStatisticsAggregator outcome" where
  "SemiSupervised_Aggregate d index s =
     (case Gaussian_Aggregate d index (gaussianAggregator2d s) of
        Inl e \<Rightarrow> Raised e s
      | Inr g \<Rightarrow>
          (case GetIntegerLabel d index of
             Inl e \<Rightarrow> Raised e (s\<lparr>gaussianAggregator2d := g\<rparr>)
           | Inr l \<Rightarrow>
               if l \<noteq> UnknownClassLabel
               then (case Histogram_Aggregate d index (histogramAggregator s) of
                       Inl e \<Rightarrow> Raised e (s\<lparr>gaussianAggregator2d := g\<rparr>)
                     | Inr h \<Rightarrow> Returned (s\<lparr>gaussianAggregator2d := g, histogramAggregator := h\<rparr>))
               else Returned (s\<lparr>gaussianAggregator2d := g\<rparr>)))"

subsection \<open>Training contexts\<close>

definition Classification_ComputeInformationGain ::
  "HistogramAggregator \<Rightarrow> HistogramAggregator \<Rightarrow> HistogramAggregator \<Rightarrow> dbl" where
  "Classification_ComputeInformationGain allStatistics leftStatistics rightStatistics =
     (let entropyBefore = Histogram_Entropy allStatistics;
          nTotalSamples = Histogram_SampleCount leftStatistics
                            + Histogram_SampleCount rightStatistics
      in if nTotalSamples \<le> 1 then Fin 0.0
         else let entropyAfter =
                    (of_uint (Histogram_SampleCount leftStatistics)
                         * Histogram_Entropy leftStatistics
                       + of_uint (Histogram_SampleCount rightStatistics)
                           * Histogram_Entropy rightStatistics)
                      / of_uint nTotalSamples
              in entropyBefore - entropyAfter)"

definition Classification_ShouldTerminate ::
  "HistogramAggregator \<Rightarrow> HistogramAggregator \<Rightarrow> HistogramAggregator \<Rightarrow> dbl \<Rightarrow> bool" where
  "Classification_ShouldTerminate parent leftChild rightChild gain = (gain < Fin 0.01)"

text \<open>
  The density-estimation context fits three pdfs; \<^verbatim>\<open>GetPdf\<close> may throw, and there is no
  test of \<^verbatim>\<open>nTotalSamples\<close>.
\<close>

definition DensityEstimation_ComputeInformationGain ::
  "GaussianAggregator2d \<Rightarrow> GaussianAggregator2d \<Rightarrow> GaussianAggregator2d \<Rightarrow> error + dbl" where
  "DensityEstimation_ComputeInformationGain allStatistics leftStatistics rightStatistics =
     (case GetPdf allStatistics of
        Inl e \<Rightarrow> Inl e
      | Inr allPdf \<Rightarrow>
          let entropyBefore = GaussianPdf2d_Entropy allPdf;
              nTotalSamples = Gaussian_SampleCount leftStatistics
                                + Gaussian_SampleCount rightStatistics
          in (case GetPdf leftStatistics of
                Inl e \<Rightarrow> Inl e
              | Inr leftPdf \<Rightarrow>
                  (case GetPdf rightStatistics of
                     Inl e \<Rightarrow> Inl e
                   | Inr rightPdf \<Rightarrow>
                       let entropyAfter =
                             (of_uint (Gaussian_SampleCount leftStatistics)
                                  * GaussianPdf2d_Entropy leftPdf
                                + of_uint (Gaussian_SampleCount rightStatistics)
                                    * GaussianPdf2d_Entropy rightPdf)
                               / of_uint nTotalSamples
                       in Inr (entropyBefore - entropyAfter))))"

definition DensityEstimation_ShouldTerminate ::
  "GaussianAggregator2d \<Rightarrow> GaussianAggregator2d \<Rightarrow> GaussianAggregator2d \<Rightarrow> dbl \<Rightarrow> bool" where
  "DensityEstimation_ShouldTerminate parent leftChild rightChild gain = (gain < Fin 0.25)"

definition Regression_ShouldTerminate ::
  "LinearFitAggregator1d \<Rightarrow> LinearFitAggregator1d \<Rightarrow> LinearFitAggregator1d \<Rightarrow> dbl \<Rightarrow> bool" where
  "Regression_ShouldTerminate parent leftChild rightChild gain = (gain < Fin 0.05)"

definition SemiSupervised_ShouldTerminate ::
  "SemiSupervisedClassificationStatisticsAggregator
     \<Rightarrow> SemiSupervisedClassificationStatisticsAggregator
     \<Rightarrow> SemiSupervisedClassificationStatisticsAggregator \<Rightarrow> dbl \<Rightarrow> bool" where
  "SemiSupervised_ShouldTerminate parent leftChild rightChild gain = (gain < Fin 0.4)"

subsection \<open>Forest: the header of the binary format\<close>

text \<open>
  A \<^verbatim>\<open>std::istream\<close> is the bytes still to be read and its fail bit. \<^verbatim>\<open>read(p, n)\<close> on a
  failed stream extracts nothing; on a stream with fewer than \<open>n\<close> bytes left it extracts
  what is left and sets the fail bit. The extracted bytes overwrite the start of the
  destination \<open>p\<close>.
\<close>

record istream =
  bytes :: string
  failbit :: bool

definition istream_read :: "nat \<Rightarrow> istream \<Rightarrow> string \<times> istream" where
  "istream_read n i =
     (if failbit i then ([], i)
      else if n \<le> length (bytes i) then (take n (bytes i), i\<lparr>bytes := drop n (bytes i)\<rparr>)
      else (bytes i, i\<lparr>bytes := [], failbit := True\<rparr>))"

definition overwrite :: "string \<Rightarrow> string \<Rightarrow> string" where
  "overwrite got buffer = got @ drop (length got) buffer"

definition NUL :: char where
  "NUL = CHR 0x00"

text \<open>The C string held in a buffer: the bytes before the first NUL.\<close>

definition c_string :: "string \<Rightarrow> string" where
  "c_string buffer = takeWhile (\<lambda>c. c \<noteq> NUL) buffer"

definition strlen :: "string \<Rightarrow> nat" where
  "strlen s = length (c_string s)"

text \<open>\<^verbatim>\<open>strcmp(a, b) != 0\<close>.\<close>

definition strcmp_differs :: "string \<Rightarrow> string \<Rightarrow> bool" where
  "strcmp_differs a b = (c_string a \<noteq> c_string b)"

text \<open>The four bytes of an \<^verbatim>\<open>int\<close> in memory, least significant first.\<close>

definition int_of_bytes :: "string \<Rightarrow> 32 word" where
  "int_of_bytes bs = foldr (\<lambda>c w. of_nat (of_char c) + 256 * w) bs 0"

definition binaryFileHeader :: string where
  "binaryFileHeader = ''MicrosoftResearch.Cambridge.Sherwood.Forest'' @ [NUL]"

text \<open>
  The loop over the trees. \<^verbatim>\<open>Tree<F,S>::Deserialize\<close> belongs to \<^verbatim>\<open>Tree.h\<close>, which is
  not embedded here, and is the parameter \<open>treeDeserialize\<close>: it fails, or it returns a tree and
  the stream after it.
\<close>

fun read_trees ::
  "(istream \<Rightarrow> error + 't \<times> istream) \<Rightarrow> nat \<Rightarrow> istream \<Rightarrow> error + 't list \<times> istream" where
  "read_trees treeDeserialize 0 i = Inr ([], i)"
| "read_trees treeDeserialize (Suc n) i =
     (case treeDeserialize i of
        Inl e \<Rightarrow> Inl e
      | Inr (tree, i') \<Rightarrow>
          (case read_trees treeDeserialize n i' of
             Inl e \<Rightarrow> Inl e
           | Inr (trees, i'') \<Rightarrow> Inr (tree # trees, i'')))"

text \<open>
  \<^verbatim>\<open>Forest::Deserialize(std::istream&)\<close>. The two version numbers start as 0; \<^verbatim>\<open>treeCount\<close>
  starts uninitialised, so using it after a short read is undefined behaviour.
\<close>

definition Forest_Deserialize ::
  "(istream \<Rightarrow> error + 't \<times> istream) \<Rightarrow> istream \<Rightarrow> error + 't list" where
  "Forest_Deserialize treeDeserialize i =
     (let buffer = replicate (strlen binaryFileHeader + 1) NUL;
          (got, i1) = istream_read (strlen binaryFileHeader) i;
          buffer = (overwrite got buffer)[length buffer - 1 := NUL]
      in if strcmp_differs buffer binaryFileHeader
         then Inl (RuntimeError ''Unsupported forest format.'')
         else
           let (got, i2) = istream_read 4 i1;
               majorVersion = int_of_bytes (overwrite got (replicate 4 NUL));
               (got, i3) = istream_read 4 i2;
               minorVersion = int_of_bytes (overwrite got (replicate 4 NUL))
           in if majorVersion = 0 \<and> minorVersion = 0
              then
                let (got, i4) = istream_read 4 i3
                in if length got < 4 then Inl UndefinedBehaviour
                   else (case read_trees treeDeserialize (nat (sint (int_of_bytes got))) i4 of
                           Inl e \<Rightarrow> Inl e
                         | Inr (trees, i5) \<Rightarrow> Inr trees)
              else Inl (RuntimeError ''Unsupported file version number.''))"


section \<open>Notions of the specification and concrete inputs\<close>

subsection \<open>Histograms\<close>

text \<open>
  The invariant of a constructed histogram: four slots, at most four bins in use (the
  constructor refuses more).
\<close>

definition hist_inv :: "HistogramAggregator \<Rightarrow> bool" where
  "hist_inv h = (length (bins h) = 4 \<and> binCount h \<le> 4)"

text \<open>
  The summand \<open>(n\<^sub>k/n) log\<^sub>2 (n\<^sub>k/n)\<close> of the Shannon entropy, with \<open>0 log 0 = 0\<close>;
  \<open>n\<close> is the stored sample count.
\<close>

definition shannon_term :: "HistogramAggregator \<Rightarrow> nat \<Rightarrow> real" where
  "shannon_term h k =
     (let p = real (unat (bins h ! k)) / real (unat (h_sampleCount h))
      in if p = 0 then 0 else p * log 2 p)"

text \<open>The count \<open>c\<^sub>k\<close> of the samples of label \<open>k\<close> among the indices \<open>is\<close>.\<close>

definition label_count :: "DataPointCollection \<Rightarrow> nat list \<Rightarrow> nat \<Rightarrow> nat" where
  "label_count d is k = length (filter (\<lambda>i. labels d ! i = int k) is)"

text \<open>Every index of \<open>is\<close> is a sample of the collection with a label in \<open>[0, K)\<close>.\<close>

definition labels_within :: "DataPointCollection \<Rightarrow> nat list \<Rightarrow> nat \<Rightarrow> bool" where
  "labels_within d is K =
     (\<forall>i \<in> set is. i < length (labels d) \<and> 0 \<le> labels d ! i \<and> labels d ! i < int K)"

text \<open>Every per-label count fits an \<^verbatim>\<open>unsigned short\<close> bin.\<close>

definition counts_fit :: "DataPointCollection \<Rightarrow> nat list \<Rightarrow> nat \<Rightarrow> bool" where
  "counts_fit d is K = (\<forall>k<K. label_count d is k < 65536)"

text \<open>Three labelled points; and 65536 points that all carry label 0.\<close>

definition three_labelled :: DataPointCollection where
  "three_labelled =
     \<lparr>data = [0, 0, 1, 0, 1, 1], dimension = 2, labels = [0, 1, 1], targets = []\<rparr>"

definition many_labelled :: DataPointCollection where
  "many_labelled = \<lparr>data = replicate 131072 0, dimension = 2,
                      labels = replicate 65536 0, targets = []\<rparr>"

subsection \<open>Gaussians\<close>

text \<open>The determinant of the covariance matrix that \<^verbatim>\<open>GetPdf\<close> hands to the pdf.\<close>

definition blended_det :: "GaussianAggregator2d \<Rightarrow> dbl" where
  "blended_det g = blended_vxx g * blended_vyy g - blended_vxy g * blended_vxy g"

text \<open>65537 two-dimensional points, all equal to \<open>(1, 1)\<close>.\<close>

definition ones_data :: DataPointCollection where
  "ones_data = \<lparr>data = replicate 131074 1, dimension = 2, labels = [], targets = []\<rparr>"

text \<open>
  A state whose blended covariance has determinant zero; and the state after aggregating
  all the points of \<open>ones_data\<close> into a fresh aggregator with \<open>a = b = 1\<close>.
\<close>

definition degenerate_state :: GaussianAggregator2d where
  "degenerate_state =
     \<lparr>g_sampleCount = 1, g_sx = 0, g_sy = 0, g_sxx = - 1, g_syy = 0, g_sxy = 0,
      g_a = 1, g_b = 1\<rparr>"

definition overflowed_state :: GaussianAggregator2d where
  "overflowed_state =
     \<lparr>g_sampleCount = 65537, g_sx = 65537, g_sy = 65537, g_sxx = 65537,
      g_syy = 65537, g_sxy = 65537, g_a = 1, g_b = 1\<rparr>"

text \<open>
  A collection of one point, \<open>(8194, 8194)\<close>. Both coordinates are \<^verbatim>\<open>float\<close> numbers; their
  product \<open>67141636\<close> is not.
\<close>

definition far_point :: DataPointCollection where
  "far_point = \<lparr>data = [8194, 8194], dimension = 2, labels = [], targets = []\<rparr>"

subsection \<open>The binary forest format\<close>

text \<open>
  The ASCII header, and the fields that follow it in a stream: \<^verbatim>\<open>int32\<close> major and minor
  version and tree count, at the offsets 43, 47 and 51. Bytes that a short stream lacks
  count as zero, the value the reader's variables start with.
\<close>

definition header_text :: string where
  "header_text = ''MicrosoftResearch.Cambridge.Sherwood.Forest''"

definition stream_major :: "istream \<Rightarrow> 32 word" where
  "stream_major i = int_of_bytes (take 4 (drop 43 (bytes i)))"

definition stream_minor :: "istream \<Rightarrow> 32 word" where
  "stream_minor i = int_of_bytes (take 4 (drop 47 (bytes i)))"

definition stream_tree_count :: "istream \<Rightarrow> 32 word" where
  "stream_tree_count i = int_of_bytes (take 4 (drop 51 (bytes i)))"

text \<open>
  Three streams: one with another header, one with version 1.0, and a forest of no trees;
  and a tree reader that always fails.
\<close>

definition wrong_stream :: istream where
  "wrong_stream = \<lparr>bytes = ''MicrosoftResearch.Cambridge.Sherwood.Tree'' @
                      [NUL, NUL, NUL, NUL, NUL, NUL, NUL, NUL, NUL, NUL, NUL, NUL],
                    failbit = False\<rparr>"

definition version1_stream :: istream where
  "version1_stream =
     \<lparr>bytes = header_text @ [CHR 0x01, NUL, NUL, NUL, NUL, NUL, NUL, NUL, NUL, NUL, NUL, NUL], failbit = False\<rparr>"

definition empty_forest_stream :: istream where
  "empty_forest_stream = \<lparr>bytes = header_text @ [NUL, NUL, NUL, NUL, NUL, NUL, NUL, NUL, NUL, NUL, NUL, NUL], failbit = False\<rparr>"

definition no_tree :: "istream \<Rightarrow> error + unit \<times> istream" where
  "no_tree i = Inl (RuntimeError ''no tree'')"

subsection \<open>Information gain\<close>

text \<open>The Shannon entropy of a histogram as a real number.\<close>

definition shannon_entropy :: "HistogramAggregator \<Rightarrow> real" where
  "shannon_entropy h =
     (if h_sampleCount h = 0 then 0
      else - (\<Sum>k\<leftarrow>[0 ..< nat (binCount h)]. shannon_term h k))"

text \<open>A Gaussian aggregator holding the single point \<open>(0, 0)\<close>, and an empty one.\<close>

definition one_point_state :: GaussianAggregator2d where
  "one_point_state =
     \<lparr>g_sampleCount = 1, g_sx = 0, g_sy = 0, g_sxx = 0, g_syy = 0, g_sxy = 0,
      g_a = 1, g_b = 1\<rparr>"

definition empty_state :: GaussianAggregator2d where
  "empty_state =
     \<lparr>g_sampleCount = 0, g_sx = 0, g_sy = 0, g_sxx = 0, g_syy = 0, g_sxy = 0,
      g_a = 1, g_b = 1\<rparr>"

text \<open>A parent histogram of two samples and its two single-sample children.\<close>

definition parent_hist :: HistogramAggregator where
  "parent_hist = \<lparr>bins = [1, 1, 0, 0], binCount = 2, h_sampleCount = 2\<rparr>"

definition left_hist :: HistogramAggregator where
  "left_hist = \<lparr>bins = [1, 0, 0, 0], binCount = 2, h_sampleCount = 1\<rparr>"

definition right_hist :: HistogramAggregator where
  "right_hist = \<lparr>bins = [0, 1, 0, 0], binCount = 2, h_sampleCount = 1\<rparr>"

subsection \<open>Linear fits\<close>

text \<open>The determinant of the stored matrix \<open>X\<^sup>T X\<close>.\<close>

definition det_XT_X :: "LinearFitAggregator1d \<Rightarrow> real" where
  "det_XT_X s = XT_X_11 s * XT_X_22 s - XT_X_12 s * XT_X_21 s"

text \<open>
  Three points on the line \<open>y = x\<close>; the content of an aggregator that was never cleared;
  and the aggregator after clearing it and aggregating the three points.
\<close>

definition line_data :: DataPointCollection where
  "line_data = \<lparr>data = [0, 1, 2], dimension = 1, labels = [], targets = [0, 1, 2]\<rparr>"

definition uncleared_fit :: LinearFitAggregator1d where
  "uncleared_fit =
     \<lparr>l_sampleCount = 7, XT_X_11 = 7, XT_X_12 = 7, XT_X_21 = 8, XT_X_22 = 7,
      XT_Y_1 = 7, XT_Y_2 = 7, Y2 = 7\<rparr>"

definition line_fit :: LinearFitAggregator1d where
  "line_fit =
     \<lparr>l_sampleCount = 3, XT_X_11 = 5, XT_X_12 = 3, XT_X_21 = 3, XT_X_22 = 3,
      XT_Y_1 = 5, XT_Y_2 = 3, Y2 = 5\<rparr>"

subsection \<open>The trainer's use of \<^verbatim>\<open>ShouldTerminate\<close>\<close>

text \<open>
  Modelled from the spec: the tree trainer (\<^verbatim>\<open>ForestTrainer.h\<close>) is not among the
  sources embedded here. Its step "if best.gain is 0 (no candidate separated the data) or
  context.should_terminate(parent_stats, best.left, best.right, best.gain): mark node i a
  Leaf; return" rejects the best split under this condition; \<open>should_terminate\<close> is the
  context's answer for the best candidate.
\<close>

definition split_rejected :: "(dbl \<Rightarrow> bool) \<Rightarrow> dbl \<Rightarrow> bool" where
  "split_rejected should_terminate gain = (deq gain (Fin 0) \<or> should_terminate gain)"

subsection \<open>Semi-supervised aggregation\<close>

text \<open>
  A freshly constructed composite aggregator of two classes (the histogram slots beyond the
  second are uninitialised), and a collection whose second point is unlabelled.
\<close>

definition fresh_semi :: SemiSupervisedClassificationStatisticsAggregator where
  "fresh_semi =
     \<lparr>nClasses = 2, ss_a = 10, ss_b = 400,
      gaussianAggregator2d =
        \<lparr>g_sampleCount = 0, g_sx = 0, g_sy = 0, g_sxx = 0, g_syy = 0, g_sxy = 0,
         g_a = 10, g_b = 400\<rparr>,
      histogramAggregator = \<lparr>bins = [0, 0, 7, 7], binCount = 2, h_sampleCount = 0\<rparr>\<rparr>"

definition partly_labelled :: DataPointCollection where
  "partly_labelled =
     \<lparr>data = [0, 0, 1, 0, 1, 1], dimension = 2, labels = [0, - 1, 1], targets = []\<rparr>"

text \<open>
  The point \<open>(1, 1)\<close> in a collection without labels, and in a collection that labels it
  with a class the histogram has no bin for.
\<close>

definition unlabelled_point :: DataPointCollection where
  "unlabelled_point = \<lparr>data = [1, 1], dimension = 2, labels = [], targets = []\<rparr>"

definition mislabelled_point :: DataPointCollection where
  "mislabelled_point = \<lparr>data = [1, 1], dimension = 2, labels = [7], targets = []\<rparr>"

subsection \<open>Maximum-likelihood estimates\<close>

text \<open>
  The samples at the indices \<open>is\<close> exist in the collection; their two coordinates; the mean
  of a list; the maximum-likelihood covariance of two lists, the mean product of the
  deviations from the means; and the weight \<open>\<alpha> = n / (n + a)\<close> of the likelihood against the
  prior.
\<close>

definition samples_exist :: "DataPointCollection \<Rightarrow> nat list \<Rightarrow> bool" where
  "samples_exist d is = (\<forall>i \<in> set is. i * dimension d + 1 < length (data d))"

definition sample_xs :: "DataPointCollection \<Rightarrow> nat list \<Rightarrow> real list" where
  "sample_xs d is = map (\<lambda>i. data d ! (i * dimension d + 0)) is"

definition sample_ys :: "DataPointCollection \<Rightarrow> nat list \<Rightarrow> real list" where
  "sample_ys d is = map (\<lambda>i. data d ! (i * dimension d + 1)) is"

text \<open>No product \<open>x * y\<close> of the two coordinates of a sample is rounded.\<close>

definition products_exact :: "DataPointCollection \<Rightarrow> nat list \<Rightarrow> bool" where
  "products_exact d is =
     (\<forall>i \<in> set is. float_mul (data d ! (i * dimension d + 0)) (data d ! (i * dimension d + 1))
                        = data d ! (i * dimension d + 0) * data d ! (i * dimension d + 1))"

definition mean :: "real list \<Rightarrow> real" where
  "mean xs = sum_list xs / real (length xs)"

definition ml_covariance :: "real list \<Rightarrow> real list \<Rightarrow> real" where
  "ml_covariance xs ys =
     (\<Sum>(x, y)\<leftarrow>zip xs ys. (x - mean xs) * (y - mean ys)) / real (length xs)"

definition prior_weight :: "nat \<Rightarrow> real \<Rightarrow> real" where
  "prior_weight n a = real n / (real n + a)"

section \<open>Properties\<close>

subsection \<open>Single-precision products\<close>

lemma round_half_even_int [simp]: "round_half_even (of_int n) = n"
  by (simp add: round_half_even_def)

text \<open>The exponent and the spacing, in terms of logarithms and powers.\<close>

lemma ulp_powr: "ulp k = 2 powr (of_int k - 23)"
proof (cases "23 \<le> k")
  case True
  then have "real_of_int k - 23 = real (nat (k - 23))" by simp
  then have "(2::real) powr (real_of_int k - 23) = 2 ^ nat (k - 23)"
    by (simp only: powr_realpow zero_less_numeral)
  then show ?thesis
    using True by (simp add: ulp_def)
next
  case False
  then have "real_of_int k - 23 = - real (nat (23 - k))" by simp
  then have "(2::real) powr (real_of_int k - 23) = 1 / 2 ^ nat (23 - k)"
    by (simp only: powr_minus powr_realpow zero_less_numeral inverse_eq_divide)
  then show ?thesis
    using False by (simp add: ulp_def)
qed

lemma binade_log:
  assumes "x \<noteq> 0"
  shows "binade x = \<lfloor>log 2 \<bar>x\<bar>\<rfloor>"
proof (cases "1 \<le> \<bar>x\<bar>")
  case True
  define k where "k = \<lfloor>log 2 \<bar>x\<bar>\<rfloor>"
  have k0: "0 \<le> k"
    using True by (simp add: k_def)
  have b: "2 powr of_int k \<le> \<bar>x\<bar>" "\<bar>x\<bar> < 2 powr (of_int k + 1)"
    using floor_log_eq_powr_iff [of "\<bar>x\<bar>" 2 k] True by (simp_all add: k_def)
  define m where "m = nat \<lfloor>\<bar>x\<bar>\<rfloor>"
  have m1: "1 \<le> m" using True by (simp add: m_def le_nat_iff)
  have rm: "real m = of_int \<lfloor>\<bar>x\<bar>\<rfloor>" using True by (simp add: m_def)
  have "real_of_int k = real (nat k)" "real_of_int k + 1 = real (nat k + 1)"
    using k0 by simp_all
  then have "(2::real) powr of_int k = 2 ^ nat k" "(2::real) powr (of_int k + 1) = 2 ^ (nat k + 1)"
    by (simp_all only: powr_realpow zero_less_numeral)
  then have p: "(2::real) powr of_int k = of_int (2 ^ nat k)"
    "(2::real) powr (of_int k + 1) = of_int (2 ^ (nat k + 1))"
    by simp_all
  have "2 powr of_int k \<le> real m"
    unfolding rm p using b(1) [unfolded p] by (simp add: le_floor_iff)
  moreover have "real m < 2 powr (of_int k + 1)"
    unfolding rm using b(2) by (smt (verit) of_int_floor_le)
  ultimately have "\<lfloor>log 2 (real m)\<rfloor> = k"
    using floor_log_eq_powr_iff [of "real m" 2 k] m1 by simp
  then show ?thesis
    using True m1 k0
    by (simp add: binade_def bitlen_def floorlog_def m_def [symmetric] k_def [symmetric])
next
  case False
  define r where "r = 1 / \<bar>x\<bar>"
  have x: "0 < \<bar>x\<bar>" "\<bar>x\<bar> < 1" using assms False by simp_all
  have r1: "1 < r" using x by (simp add: r_def)
  define n where "n = nat (\<lceil>r\<rceil> - 1)"
  have c2: "2 \<le> \<lceil>r\<rceil>" using r1 by linarith
  then have n1: "0 < n" by (simp add: n_def)
  have rn: "real n = of_int \<lceil>r\<rceil> - 1" using c2 by (simp add: n_def)
  define j where "j = floorlog 2 n"
  have j1: "0 < j" using n1 by (simp add: j_def floorlog_def)
  have fb: "2 ^ (j - 1) \<le> n" "n < 2 ^ j"
    using floorlog_bounds [of n 2] n1 by (simp_all add: j_def)
  have "real n < r" unfolding rn by linarith
  moreover have "(2::real) ^ (j - 1) \<le> real n"
    using fb(1) by (metis of_nat_le_iff of_nat_numeral of_nat_power)
  ultimately have lo: "2 ^ (j - 1) < r" by linarith
  have "n + 1 \<le> 2 ^ j" using fb(2) by simp
  then have "real (n + 1) \<le> (2::real) ^ j"
    by (metis of_nat_le_iff of_nat_numeral of_nat_power)
  then have "of_int \<lceil>r\<rceil> \<le> (2::real) ^ j" using rn by simp
  moreover have "r \<le> of_int \<lceil>r\<rceil>" by (rule le_of_int_ceiling)
  ultimately have hi: "r \<le> 2 ^ j" by linarith
  have "- real j + 1 = - real (j - 1)"
    using j1 by simp
  then have "(2::real) powr (- real j + 1) = 1 / 2 ^ (j - 1)"
    by (simp only: powr_minus powr_realpow zero_less_numeral inverse_eq_divide)
  moreover have "(2::real) powr (- real j) = 1 / 2 ^ j"
    by (simp only: powr_minus powr_realpow zero_less_numeral inverse_eq_divide)
  ultimately have pj: "(2::real) powr (- real j) = 1 / 2 ^ j"
    "(2::real) powr (- real j + 1) = 1 / 2 ^ (j - 1)"
    by simp_all
  have e: "real_of_int (- int j) = - real j" "real_of_int (- int j) + 1 = - real j + 1"
    by simp_all
  have "1 / 2 ^ j \<le> \<bar>x\<bar>"
    using hi x(1) by (simp add: r_def field_simps)
  then have "2 powr of_int (- int j) \<le> \<bar>x\<bar>"
    unfolding e pj .
  moreover have "\<bar>x\<bar> < 1 / 2 ^ (j - 1)"
    using lo x(1) by (simp add: r_def field_simps)
  then have "\<bar>x\<bar> < 2 powr (of_int (- int j) + 1)"
    unfolding e pj .
  ultimately have "\<lfloor>log 2 \<bar>x\<bar>\<rfloor> = - int j"
    using floor_log_eq_powr_iff [of "\<bar>x\<bar>" 2 "- int j"] x(1) by simp
  then show ?thesis
    using False by (simp add: binade_def bitlen_def j_def n_def r_def)
qed

lemma float_round_log:
  "float_round x =
     (if x = 0 then 0
      else 2 powr (of_int \<lfloor>log 2 \<bar>x\<bar>\<rfloor> - 23)
             * of_int (round_half_even (x / 2 powr (of_int \<lfloor>log 2 \<bar>x\<bar>\<rfloor> - 23))))"
  by (simp add: float_round_def ulp_powr binade_log)

text \<open>Within one binade the rounding is to a multiple of \<open>2\<^sup>k\<^sup>-\<^sup>2\<^sup>3\<close>.\<close>

lemma float_round_binade:
  assumes "2 powr of_int k \<le> \<bar>x\<bar>" and "\<bar>x\<bar> < 2 powr (of_int k + 1)"
  shows "float_round x =
           2 powr (of_int k - 23) * of_int (round_half_even (x / 2 powr (of_int k - 23)))"
proof -
  have pos: "0 < \<bar>x\<bar>"
    using assms(1) by (smt (verit) powr_gt_zero)
  have "\<lfloor>log 2 \<bar>x\<bar>\<rfloor> = k"
    using assms pos by (simp add: floor_log_eq_powr_iff)
  moreover have "x \<noteq> 0"
    using pos by simp
  ultimately show ?thesis
    by (simp add: float_round_log)
qed

text \<open>An integer below \<open>2\<^sup>2\<^sup>4\<close> in absolute value is a \<^verbatim>\<open>float\<close>: rounding leaves it alone.\<close>

lemma float_round_small_int:
  assumes "\<bar>n\<bar> < 2 ^ 24"
  shows "float_round (of_int n) = of_int n"
proof (cases "n = 0")
  case True
  then show ?thesis by (simp add: float_round_def)
next
  case False
  define k where "k = \<lfloor>log 2 \<bar>real_of_int n\<bar>\<rfloor>"
  have pos: "0 < \<bar>real_of_int n\<bar>"
    using False by simp
  have bounds: "2 powr of_int k \<le> \<bar>real_of_int n\<bar>" "\<bar>real_of_int n\<bar> < 2 powr (of_int k + 1)"
    using floor_log_eq_powr_iff [of "\<bar>real_of_int n\<bar>" 2 k] pos by (simp_all add: k_def)
  have one: "1 \<le> \<bar>real_of_int n\<bar>"
    using False
    by (metis abs_ge_zero abs_zero int_one_le_iff_zero_less of_int_1_le_iff of_int_abs
        zero_less_abs_iff)
  have k0: "0 \<le> k"
  proof (rule ccontr)
    assume "\<not> 0 \<le> k"
    then have "of_int k + 1 \<le> (0::real)"
      by linarith
    then have "2 powr (of_int k + 1) \<le> (2::real) powr 0"
      by (intro powr_mono) simp_all
    then show False
      using bounds(2) one by simp
  qed
  have k23: "k \<le> 23"
  proof (rule ccontr)
    assume "\<not> k \<le> 23"
    then have "(24::real) \<le> of_int k"
      by linarith
    then have "(2::real) powr 24 \<le> 2 powr of_int k"
      by (intro powr_mono) simp_all
    moreover have "\<bar>real_of_int n\<bar> < 2 ^ 24"
      using assms by (metis of_int_abs of_int_less_iff of_int_numeral of_int_power)
    ultimately show False
      using bounds(1) by simp
  qed
  define j where "j = nat (23 - k)"
  have kj: "real_of_int k - 23 = - real j"
    using k0 k23 by (simp add: j_def)
  have ulp: "2 powr (real_of_int k - 23) = 1 / 2 ^ j"
    unfolding kj by (simp add: powr_minus powr_realpow field_simps)
  have "real_of_int n / (1 / 2 ^ j) = of_int (n * 2 ^ j)"
    by simp
  then have "round_half_even (real_of_int n / (1 / 2 ^ j)) = n * 2 ^ j"
    using round_half_even_int by presburger
  then show ?thesis
    unfolding float_round_binade [OF bounds] ulp by simp
qed

lemma float_mul_small_int:
  assumes "\<bar>m * n\<bar> < 2 ^ 24"
  shows "float_mul (of_int m) (of_int n) = of_int m * of_int n"
  using float_round_small_int [OF assms] by (simp add: float_mul_def)

lemma float_mul_0 [simp]: "float_mul 0 y = 0" "float_mul x 0 = 0"
  by (simp_all add: float_mul_def float_round_def)

lemma float_mul_1_0 [simp]: "float_mul 1 0 = 0"
  by simp

lemma float_mul_1_1 [simp]: "float_mul 1 1 = 1"
  using float_mul_small_int [of 1 1] by simp

lemma float_mul_2_2 [simp]: "float_mul 2 2 = 4"
  using float_mul_small_int [of 2 2] by simp

text \<open>
  \<open>4097\<^sup>2 = 16785409\<close> lies between \<open>2\<^sup>2\<^sup>4\<close> and \<open>2\<^sup>2\<^sup>5\<close>, where the \<^verbatim>\<open>float\<close> numbers are the
  even integers; it is half-way between two of them and goes to the one with the even
  significand.
\<close>

lemma float_mul_4097: "float_mul 4097 4097 = 16785408"
proof -
  have "float_round 16785409 =
          2 powr (of_int 24 - 23) * of_int (round_half_even (16785409 / 2 powr (of_int 24 - 23)))"
    by (rule float_round_binade) simp_all
  also have "\<dots> = 16785408"
    by (simp add: round_half_even_def)
  finally show ?thesis
    by (simp add: float_mul_def)
qed

text \<open>
  \<open>8194\<^sup>2 = 67141636\<close> lies between \<open>2\<^sup>2\<^sup>6\<close> and \<open>2\<^sup>2\<^sup>7\<close>, where the \<^verbatim>\<open>float\<close> numbers are the
  multiples of 8; it is half-way between two of them and goes to the even one.
\<close>

lemma float_mul_8194: "float_mul 8194 8194 = 67141632"
proof -
  have "float_round 67141636 =
          2 powr (of_int 26 - 23) * of_int (round_half_even (67141636 / 2 powr (of_int 26 - 23)))"
    by (rule float_round_binade) simp_all
  also have "\<dots> = 67141632"
    by (simp add: round_half_even_def)
  finally show ?thesis
    by (simp add: float_mul_def)
qed

subsection \<open>The entropy of a histogram\<close>

lemma entropy_term_real:
  assumes "0 < n" "0 \<le> x"
  shows "(let p = Fin x / Fin n
          in Fin r - (if deq p (Fin 0) then Fin 0 else p * dlog p / dlog (Fin 2)))
       = Fin (r - (let p = x / n in if p = 0 then 0 else p * log 2 p))"
proof (cases "x = 0")
  case True
  then show ?thesis using assms by (simp add: minus_dbl_def)
next
  case False
  then have "0 < x / n" using assms by simp
  then show ?thesis using assms by (simp add: minus_dbl_def Let_def log_def)
qed

lemma entropy_step_Fin:
  assumes "h_sampleCount h \<noteq> 0"
  shows "entropy_step h (Fin r) b = Fin (r - shannon_term h b)"
proof -
  have "unat (h_sampleCount h) \<noteq> 0"
    using assms by (simp add: unat_eq_0)
  then have n: "0 < real (unat (h_sampleCount h))"
    by linarith
  have x: "0 \<le> real (unat (bins h ! b))"
    by linarith
  show ?thesis
    unfolding entropy_step_def shannon_term_def of_ushort_def of_uint_def
    by (rule entropy_term_real [OF n x])
qed

lemma entropy_loop_Fin:
  assumes "h_sampleCount h \<noteq> 0"
  shows "foldl (entropy_step h) (Fin r) ks = Fin (r - (\<Sum>k\<leftarrow>ks. shannon_term h k))"
  using assms by (induction ks arbitrary: r) (simp_all add: entropy_step_Fin algebra_simps)

text \<open>
  Claim C6. For every histogram, \<^verbatim>\<open>Entropy()\<close> is the base-2 Shannon entropy
  \<open>- \<Sum>\<^sub>k (n\<^sub>k/n) log\<^sub>2 (n\<^sub>k/n)\<close> over its bins, a bin of count zero contributing zero,
  and it is 0 when the sample count is 0.
\<close>

theorem Histogram_Entropy_shannon:
  assumes "hist_inv h"
  shows "Histogram_Entropy h =
     (if Histogram_SampleCount h = 0 then Fin 0
      else Fin (- (\<Sum>k\<leftarrow>[0 ..< nat (BinCount h)]. shannon_term h k)))"
  by (simp add: Histogram_Entropy_def Histogram_SampleCount_def entropy_loop_Fin)

theorem Histogram_Entropy_shannon_witness:
  "hist_inv \<lparr>bins = [1, 1, 0, 0], binCount = 2, h_sampleCount = 2\<rparr> \<and>
   Histogram_Entropy \<lparr>bins = [1, 1, 0, 0], binCount = 2, h_sampleCount = 2\<rparr> = Fin 1"
  using Histogram_Entropy_shannon [of "\<lparr>bins = [1, 1, 0, 0], binCount = 2, h_sampleCount = 2\<rparr>"]
  by (simp add: hist_inv_def Histogram_SampleCount_def BinCount_def shannon_term_def
      upt_rec log_divide)

subsection \<open>Counting labels in a histogram\<close>

lemma Histogram_Aggregate_ok:
  assumes "i < length (labels d)" "0 \<le> labels d ! i" "labels d ! i < 4"
  shows "Histogram_Aggregate d i h =
           Inr (h\<lparr>bins := (bins h)[nat (labels d ! i) := bins h ! nat (labels d ! i) + 1],
                  h_sampleCount := h_sampleCount h + 1\<rparr>)"
  using assms by (auto simp: Histogram_Aggregate_def GetIntegerLabel_def HasLabels_def)

lemma Histogram_AggregateAll_counts:
  assumes "labels_within d is 4" "length (bins h0) = 4"
  shows "Histogram_AggregateAll d is h0 =
           Inr (h0\<lparr>bins := map (\<lambda>k. bins h0 ! k + of_nat (label_count d is k)) [0 ..< 4],
                   h_sampleCount := h_sampleCount h0 + of_nat (length is)\<rparr>)"
  using assms
proof (induction "is" arbitrary: h0)
  case Nil
  have "map ((!) (bins h0)) [0 ..< 4] = bins h0"
    using Nil.prems(2) map_nth [of "bins h0"] by simp
  then show ?case by (simp add: label_count_def)
next
  case (Cons i "is")
  let ?l = "nat (labels d ! i)"
  let ?h1 = "h0\<lparr>bins := (bins h0)[?l := bins h0 ! ?l + 1],
                 h_sampleCount := h_sampleCount h0 + 1\<rparr>"
  from Cons.prems(1) have i: "i < length (labels d)" "0 \<le> labels d ! i" "labels d ! i < 4"
    and rest: "labels_within d is 4"
    by (auto simp: labels_within_def)
  have step: "Histogram_Aggregate d i h0 = Inr ?h1"
    by (rule Histogram_Aggregate_ok [OF i])
  have len: "length (bins ?h1) = 4"
    using Cons.prems(2) by simp
  have l4: "?l < 4" using i by linarith
  have bins_eq: "bins ?h1 ! k + of_nat (label_count d is k)
               = bins h0 ! k + of_nat (label_count d (i # is) k)" if "k < 4" for k
  proof (cases "k = ?l")
    case True
    then have "labels d ! i = int k" using i by simp
    then show ?thesis
      using True Cons.prems(2) l4 by (simp add: label_count_def)
  next
    case False
    then have "labels d ! i \<noteq> int k" using i by auto
    then show ?thesis
      using False by (simp add: label_count_def)
  qed
  have "map (\<lambda>k. bins ?h1 ! k + of_nat (label_count d is k)) [0 ..< 4]
      = map (\<lambda>k. bins h0 ! k + of_nat (label_count d (i # is) k)) [0 ..< 4]"
    by (rule map_cong) (use bins_eq in auto)
  then show ?case
    using Cons.IH [OF rest len] step by (simp add: add.assoc)
qed

lemma zero_bins_length:
  "length (foldl (\<lambda>bs b. bs[b := (0::16 word)]) mem [0 ..< n]) = length mem"
  by (induction n) auto

lemma zero_bins_nth:
  assumes "k < length mem"
  shows "foldl (\<lambda>bs b. bs[b := (0::16 word)]) mem [0 ..< n] ! k = (if k < n then 0 else mem ! k)"
  using assms by (induction n) (auto simp: nth_list_update zero_bins_length less_Suc_eq)

lemma label_count_sum:
  assumes "labels_within d is K"
  shows "(\<Sum>j<K. label_count d is j) = length is"
  using assms
proof (induction "is")
  case Nil
  then show ?case by (simp add: label_count_def)
next
  case (Cons i "is")
  then have rest: "labels_within d is K" and i: "0 \<le> labels d ! i" "labels d ! i < int K"
    by (auto simp: labels_within_def)
  have "(\<Sum>j<K. label_count d (i # is) j)
      = (\<Sum>j<K. label_count d is j + (if nat (labels d ! i) = j then 1 else 0))"
    by (rule sum.cong) (use i in \<open>auto simp: label_count_def\<close>)
  also have "\<dots> = (\<Sum>j<K. label_count d is j) + (\<Sum>j<K. if nat (labels d ! i) = j then 1 else 0)"
    by (simp add: sum.distrib)
  also have "(\<Sum>j<K. if nat (labels d ! i) = j then 1 else 0) = (1::nat)"
    using i by (simp add: sum.delta)
  finally show ?case using Cons.IH [OF rest] by simp
qed

lemma upt_0_4: "[0 ..< 4] = [0, 1, 2, 3]"
  by (simp add: upt_rec)

text \<open>
  Claim C8, amended. Aggregating a non-empty sequence of samples whose labels lie in
  \<open>[0, K)\<close>, \<open>K \<le> 4\<close>, and whose per-label counts \<open>c\<^sub>k\<close> are all below 65536, into an
  empty histogram of \<open>K\<close> bins succeeds, and then \<^verbatim>\<open>SampleCount()\<close> is \<open>\<Sum>\<^sub>j c\<^sub>j\<close> and
  \<^verbatim>\<open>GetProbability(k)\<close> is \<open>c\<^sub>k / \<Sum>\<^sub>j c\<^sub>j\<close> for every bin \<open>k\<close>.
\<close>

theorem Histogram_counts:
  assumes mem: "length mem = 4" and K: "K \<le> 4"
    and lab: "labels_within d is K"
    and ne: "is \<noteq> []"
    and fit: "counts_fit d is K"
  shows "\<exists>h0 h. HistogramAggregator_new mem (int K) = Inr h0 \<and>
           Histogram_AggregateAll d is h0 = Inr h \<and>
           unat (Histogram_SampleCount h) = (\<Sum>j<K. label_count d is j) \<and>
           (\<forall>k<K. Histogram_GetProbability h k
                    = Fin (real (label_count d is k) / real (\<Sum>j<K. label_count d is j)))"
proof -
  from fit have small: "\<forall>k<K. label_count d is k < 65536"
    by (simp add: counts_fit_def)
  let ?start = "\<lparr>bins = foldl (\<lambda>bs b. bs[b := 0]) mem [0 ..< nat (int K)],
               binCount = int K, h_sampleCount = 0\<rparr>"
  let ?final = "?start\<lparr>bins := map (\<lambda>k. bins ?start ! k + of_nat (label_count d is k)) [0 ..< 4],
                h_sampleCount := h_sampleCount ?start + of_nat (length is)\<rparr>"
  have new: "HistogramAggregator_new mem (int K) = Inr ?start"
    using K by (simp add: HistogramAggregator_new_def)
  have lab4: "labels_within d is 4"
    using lab K by (fastforce simp: labels_within_def)
  have agg: "Histogram_AggregateAll d is ?start = Inr ?final"
    using Histogram_AggregateAll_counts [OF lab4, of ?start] by (simp add: zero_bins_length mem)
  have total: "(\<Sum>j<K. label_count d is j) = length is"
    by (rule label_count_sum [OF lab])
  have "length is \<le> (\<Sum>j<K. 65535)"
    unfolding total [symmetric] by (rule sum_mono) (use small in auto)
  then have len: "length is < 2 ^ 32"
    using K by simp
  have cnt: "unat (Histogram_SampleCount ?final) = length is"
    using len by (simp add: Histogram_SampleCount_def unat_of_nat)
  have prob: "Histogram_GetProbability ?final k
            = Fin (real (label_count d is k) / real (length is))" if "k < K" for k
  proof -
    have k4: "k < 4" using that K by simp
    have "bins ?final ! k = of_nat (label_count d is k)"
      using k4 that zero_bins_nth [of k mem K] mem by simp
    moreover have "label_count d is k < 2 ^ 16"
      using small that by simp
    ultimately have "unat (bins ?final ! k) = label_count d is k"
      by (simp add: unat_of_nat)
    moreover have "length is \<noteq> 0" using ne by simp
    ultimately show ?thesis
      unfolding Histogram_GetProbability_def of_ushort_def of_uint_def
      using cnt by (simp add: Histogram_SampleCount_def)
  qed
  show ?thesis
    using new agg cnt prob total by (intro exI [of _ ?start] exI [of _ ?final]) simp
qed

theorem Histogram_counts_witness:
  "length [7, 7, 7, 7 :: 16 word] = 4 \<and> (2::nat) \<le> 4 \<and>
   labels_within three_labelled [0, 1, 2] 2 \<and> [0, 1, 2 :: nat] \<noteq> [] \<and>
   counts_fit three_labelled [0, 1, 2] 2 \<and>
   (\<exists>h0 h. HistogramAggregator_new [7, 7, 7, 7] 2 = Inr h0 \<and>
      Histogram_AggregateAll three_labelled [0, 1, 2] h0 = Inr h \<and>
      unat (Histogram_SampleCount h) = 3 \<and>
      Histogram_GetProbability h 0 = Fin (1 / 3) \<and>
      Histogram_GetProbability h 1 = Fin (2 / 3))"
proof -
  have lab: "labels_within three_labelled [0, 1, 2] 2"
    by (simp add: labels_within_def three_labelled_def)
  have c0: "label_count three_labelled [0, 1, 2] 0 = 1"
    and c1: "label_count three_labelled [0, 1, 2] 1 = 2"
    by (simp_all add: label_count_def three_labelled_def)
  have fit: "counts_fit three_labelled [0, 1, 2] 2"
    using c0 c1 by (simp add: counts_fit_def less_Suc_eq numeral_2_eq_2)
  have s: "(\<Sum>j<2. label_count three_labelled [0, 1, 2] j) = 3"
    using c0 c1 by (simp add: numeral_2_eq_2)
  from Histogram_counts [of "[7, 7, 7, 7]" 2 three_labelled "[0, 1, 2]", OF _ _ lab _ fit]
  obtain h0 h where new: "HistogramAggregator_new [7, 7, 7, 7] (int 2) = Inr h0"
    and agg: "Histogram_AggregateAll three_labelled [0, 1, 2] h0 = Inr h"
    and cnt: "unat (Histogram_SampleCount h) = (\<Sum>j<2. label_count three_labelled [0, 1, 2] j)"
    and prob: "\<forall>k<2. Histogram_GetProbability h k
        = Fin (real (label_count three_labelled [0, 1, 2] k)
               / real (\<Sum>j<2. label_count three_labelled [0, 1, 2] j))"
    by auto
  have new': "HistogramAggregator_new [7, 7, 7, 7] 2 = Inr h0"
    using new by simp
  have cnt': "unat (Histogram_SampleCount h) = 3"
    using cnt s by simp
  have p0: "Histogram_GetProbability h 0 = Fin (1 / 3)"
    using prob [rule_format, of 0] unfolding c0 s by simp
  have p1: "Histogram_GetProbability h 1 = Fin (2 / 3)"
    using prob [rule_format, of 1] unfolding c1 s by simp
  show ?thesis
    using lab fit new' agg cnt' p0 p1 by auto
qed

text \<open>
  The bins are \<^verbatim>\<open>unsigned short\<close>: the 65536th sample of one label wraps its bin to 0, and
  \<^verbatim>\<open>GetProbability(0)\<close> is then 0 where the claim C8 has \<open>65536 / 65536\<close>.
\<close>

theorem Histogram_counts_counterexample:
  "HistogramAggregator_new [0, 0, 0, 0] 1
     = Inr \<lparr>bins = [0, 0, 0, 0], binCount = 1, h_sampleCount = 0\<rparr> \<and>
   label_count many_labelled [0 ..< 65536] 0 = 65536 \<and>
   Histogram_AggregateAll many_labelled [0 ..< 65536]
       \<lparr>bins = [0, 0, 0, 0], binCount = 1, h_sampleCount = 0\<rparr>
     = Inr \<lparr>bins = [0, 0, 0, 0], binCount = 1, h_sampleCount = 65536\<rparr> \<and>
   Histogram_GetProbability \<lparr>bins = [0, 0, 0, 0], binCount = 1, h_sampleCount = 65536\<rparr> 0
     = Fin 0 \<and>
   Fin 0 \<noteq> Fin (65536 / 65536)"
proof -
  have new: "HistogramAggregator_new [0, 0, 0, 0] 1
     = Inr \<lparr>bins = [0, 0, 0, 0], binCount = 1, h_sampleCount = 0\<rparr>"
    by (simp add: HistogramAggregator_new_def)
  have filt: "filter (\<lambda>i. labels many_labelled ! i = int k) [0 ..< 65536]
            = (if k = 0 then [0 ..< 65536] else [])" for k
    by (auto simp: many_labelled_def filter_empty_conv intro!: filter_True)
  have cnt: "label_count many_labelled [0 ..< 65536] k = (if k = 0 then 65536 else 0)" for k
    by (simp add: label_count_def filt)
  have lab: "labels_within many_labelled [0 ..< 65536] 4"
    by (simp add: labels_within_def many_labelled_def)
  have agg: "Histogram_AggregateAll many_labelled [0 ..< 65536]
       \<lparr>bins = [0, 0, 0, 0], binCount = 1, h_sampleCount = 0\<rparr>
     = Inr \<lparr>bins = [0, 0, 0, 0], binCount = 1, h_sampleCount = 65536\<rparr>"
    using Histogram_AggregateAll_counts [OF lab,
        of "\<lparr>bins = [0, 0, 0, 0], binCount = 1, h_sampleCount = 0\<rparr>"]
    by (simp add: cnt upt_0_4)
  have prob: "Histogram_GetProbability
       \<lparr>bins = [0, 0, 0, 0], binCount = 1, h_sampleCount = 65536\<rparr> 0 = Fin 0"
    by (simp add: Histogram_GetProbability_def of_ushort_def of_uint_def)
  show ?thesis
    using new cnt [of 0] agg prob by simp
qed

subsection \<open>Fitting a Gaussian\<close>

lemma of_uint_Fin:
  assumes "unat c = n"
  shows "of_uint c = Fin (real n)"
  using assms by (simp add: of_uint_def)

lemma unat_square:
  assumes "unat (c :: 32 word) = n" "n < 65536"
  shows "unat (c * c) = n * n"
proof -
  have "n * n \<le> 65535 * 65535"
    using assms(2) by (intro mult_mono) auto
  then have "n * n < 2 ^ 32" by simp
  then show ?thesis
    using assms(1) by (simp add: unat_word_ariths)
qed

lemma ml_cov_Fin:
  assumes "unat (g_sampleCount g) = n" "0 < n" "n < 65536"
  shows "ml_cov g sab sa sb = Fin (sab / real n - sa * sb / (real n * real n))"
proof -
  have sq: "of_uint (g_sampleCount g * g_sampleCount g) = Fin (real (n * n))"
    by (rule of_uint_Fin) (rule unat_square [OF assms(1,3)])
  show ?thesis
    unfolding ml_cov_def sq of_uint_Fin [OF assms(1)]
    using assms(2) by (simp add: minus_dbl_def)
qed

lemma prior_alpha_Fin:
  assumes "unat (g_sampleCount g) = n" "0 < g_a g"
  shows "prior_alpha g = Fin (real n / (real n + g_a g))"
proof -
  have "real n + g_a g \<noteq> 0"
    using assms(2) by (smt (verit) of_nat_0_le_iff)
  then show ?thesis
    unfolding prior_alpha_def of_uint_Fin [OF assms(1)] by simp
qed

lemma blended_Fin:
  assumes "unat (g_sampleCount g) = n" "0 < n" "n < 65536" "0 < g_a g"
  shows "blended_vxx g = Fin (real n / (real n + g_a g) * (g_sxx g / real n - g_sx g * g_sx g / (real n * real n))
                          + (1 - real n / (real n + g_a g)) * g_b g)"
    and "blended_vyy g = Fin (real n / (real n + g_a g) * (g_syy g / real n - g_sy g * g_sy g / (real n * real n))
                          + (1 - real n / (real n + g_a g)) * g_b g)"
    and "blended_vxy g = Fin (real n / (real n + g_a g) * (g_sxy g / real n - g_sx g * g_sy g / (real n * real n)))"
  unfolding blended_vxx_def blended_vyy_def blended_vxy_def
    ml_cov_Fin [OF assms(1-3)] prior_alpha_Fin [OF assms(1,4)]
  by (simp_all add: minus_dbl_def)

lemma GaussianPdf2d_new_Fin:
  assumes "0 \<le> v11 * v22 - v12 * v12"
  shows "\<exists>p. GaussianPdf2d_new mx my (Fin v11) (Fin v12) (Fin v22) = Inr p \<and>
             mean_x p = mx \<and> mean_y p = my \<and>
             Sigma_11 p = Fin v11 \<and> Sigma_12 p = Fin v12 \<and> Sigma_22 p = Fin v22"
  using assms by (simp add: GaussianPdf2d_new_def minus_dbl_def Let_def)

lemma GaussianAggregator2d_new_Inr:
  assumes "GaussianAggregator2d_new a b = Inr g0"
  shows "g_sampleCount g0 = 0" "g_sx g0 = 0" "g_sy g0 = 0" "g_sxx g0 = 0" "g_syy g0 = 0"
    "g_sxy g0 = 0" "g_a g0 = max a 0.001" "g_b g0 = max b 1" "0 \<le> a" "0 \<le> b"
  using assms by (auto simp: GaussianAggregator2d_new_def split: if_splits)

lemma Gaussian_Aggregate_ok:
  assumes "GetDataPoint d i 0 = Inr x" "GetDataPoint d i 1 = Inr y"
  shows "Gaussian_Aggregate d i g = Inr (Gaussian_add x y g)"
  unfolding Gaussian_Aggregate_def assms by simp

lemma Gaussian_AggregateAll_const:
  assumes "\<forall>i \<in> set is. GetDataPoint d i 0 = Inr x \<and> GetDataPoint d i 1 = Inr y"
  shows "Gaussian_AggregateAll d is g =
           Inr (g\<lparr>g_sx := g_sx g + real (length is) * x,
                  g_sy := g_sy g + real (length is) * y,
                  g_sxx := g_sxx g + real (length is) * x\<^sup>2,
                  g_syy := g_syy g + real (length is) * y\<^sup>2,
                  g_sxy := g_sxy g + real (length is) * float_mul x y,
                  g_sampleCount := g_sampleCount g + of_nat (length is)\<rparr>)"
  using assms
proof (induction "is" arbitrary: g)
  case Nil
  then show ?case by simp
next
  case (Cons i "is")
  then have step: "Gaussian_Aggregate d i g = Inr (Gaussian_add x y g)"
    by (simp add: Gaussian_Aggregate_ok)
  from Cons.prems have rest: "\<forall>i \<in> set is. GetDataPoint d i 0 = Inr x \<and> GetDataPoint d i 1 = Inr y"
    by simp
  show ?case
    by (simp add: step Cons.IH [OF rest] Gaussian_add_def algebra_simps)
qed

lemma ones_data_point:
  assumes "i \<le> 65536"
  shows "GetDataPoint ones_data i 0 = Inr 1" "GetDataPoint ones_data i 1 = Inr 1"
  using assms by (simp_all add: GetDataPoint_def ones_data_def)

lemma ones_data_aggregate:
  assumes "n \<le> 65537"
  shows "Gaussian_AggregateAll ones_data [0 ..< n]
           \<lparr>g_sampleCount = 0, g_sx = 0, g_sy = 0, g_sxx = 0, g_syy = 0, g_sxy = 0,
            g_a = a, g_b = b\<rparr>
         = Inr \<lparr>g_sampleCount = of_nat n, g_sx = real n, g_sy = real n, g_sxx = real n,
                g_syy = real n, g_sxy = real n, g_a = a, g_b = b\<rparr>"
proof -
  have "\<forall>i \<in> set [0 ..< n]. GetDataPoint ones_data i 0 = Inr 1 \<and> GetDataPoint ones_data i 1 = Inr 1"
  proof (intro ballI)
    fix i assume "i \<in> set [0 ..< n]"
    then have "i \<le> 65536" using assms by simp
    then show "GetDataPoint ones_data i 0 = Inr 1 \<and> GetDataPoint ones_data i 1 = Inr 1"
      using ones_data_point by blast
  qed
  from Gaussian_AggregateAll_const [OF this] show ?thesis by simp
qed

lemma GetPdf_as_new:
  "GetPdf g = GaussianPdf2d_new (Fin (g_sx g) / of_uint (g_sampleCount g))
                (Fin (g_sy g) / of_uint (g_sampleCount g))
                (blended_vxx g) (blended_vxy g) (blended_vyy g)"
  by (simp add: GetPdf_def)

lemma GaussianPdf2d_new_throws:
  assumes "S11 * S22 - S12 * S12 < Fin 0"
  shows "GaussianPdf2d_new mx my S11 S12 S22
           = Inl (RuntimeError ''Gaussian covaraince matrix must have determinant>0.0.'')"
  using assms by (simp add: GaussianPdf2d_new_def)

lemma GaussianPdf2d_new_zero:
  assumes "deq (S11 * S22 - S12 * S12) (Fin 0)"
  shows "\<exists>p. GaussianPdf2d_new mx my S11 S12 S22 = Inr p \<and> GaussianPdf2d_Entropy p = PInf"
proof -
  have "S11 * S22 - S12 * S12 = Fin 0"
    using assms by (cases "S11 * S22 - S12 * S12") simp_all
  then show ?thesis
    by (simp add: GaussianPdf2d_new_def GaussianPdf2d_Entropy_def Let_def)
qed

text \<open>
  The same point \<open>n\<close> times, from the empty state: the sums are \<open>n x\<close>, \<open>n y\<close>, \<open>n x\<^sup>2\<close>, \<open>n y\<^sup>2\<close>
  and \<open>n p\<close> with \<open>p\<close> the \<^verbatim>\<open>float\<close> product. The maximum-likelihood variances are 0, but the
  maximum-likelihood covariance is the rounding error \<open>p - x y\<close>; \<^verbatim>\<open>GetPdf\<close> throws as soon
  as \<open>\<alpha> \<bar>p - x y\<bar>\<close> exceeds \<open>(1 - \<alpha>) b\<close>.
\<close>

lemma same_point_blended:
  assumes n: "unat (g_sampleCount g) = n" "0 < n" "n < 65536"
    and a: "0 < g_a g"
    and sums: "g_sx g = real n * x" "g_sy g = real n * y" "g_sxx g = real n * x\<^sup>2"
      "g_syy g = real n * y\<^sup>2" "g_sxy g = real n * p"
  shows "blended_vxx g = Fin ((1 - real n / (real n + g_a g)) * g_b g)"
    and "blended_vyy g = Fin ((1 - real n / (real n + g_a g)) * g_b g)"
    and "blended_vxy g = Fin (real n / (real n + g_a g) * (p - x * y))"
proof -
  have n0: "real n \<noteq> 0" using n(2) by simp
  show "blended_vxx g = Fin ((1 - real n / (real n + g_a g)) * g_b g)"
    unfolding blended_Fin(1) [OF n a] sums using n0 by (simp add: power2_eq_square)
  show "blended_vyy g = Fin ((1 - real n / (real n + g_a g)) * g_b g)"
    unfolding blended_Fin(2) [OF n a] sums using n0 by (simp add: power2_eq_square)
  show "blended_vxy g = Fin (real n / (real n + g_a g) * (p - x * y))"
    unfolding blended_Fin(3) [OF n a] sums using n0 by (simp add: field_simps)
qed

lemma GaussianPdf2d_new_Inr:
  assumes "GaussianPdf2d_new mx my S11 S12 S22 = Inr p"
  shows "Sigma_11 p = S11" "Sigma_12 p = S12" "Sigma_22 p = S22"
  using assms by (auto simp: GaussianPdf2d_new_def Let_def split: if_splits)

lemma same_point_variances:
  assumes n: "unat (g_sampleCount g) = n" "0 < n" "n < 65536"
    and a: "0 < g_a g"
    and sums: "g_sx g = real n * x" "g_sy g = real n * y" "g_sxx g = real n * x\<^sup>2"
      "g_syy g = real n * y\<^sup>2" "g_sxy g = real n * p"
    and pdf: "GetPdf g = Inr q"
  shows "VarianceX q = Fin ((1 - real n / (real n + g_a g)) * g_b g)"
    and "VarianceY q = Fin ((1 - real n / (real n + g_a g)) * g_b g)"
  using GaussianPdf2d_new_Inr [OF pdf [unfolded GetPdf_as_new]]
  unfolding same_point_blended [OF n a sums] VarianceX_def VarianceY_def by simp_all

lemma same_point_pdf:
  assumes n: "unat (g_sampleCount g) = n" "0 < n" "n < 65536"
    and a: "0 < g_a g"
    and sums: "g_sx g = real n * x" "g_sy g = real n * y" "g_sxx g = real n * x\<^sup>2"
      "g_syy g = real n * y\<^sup>2" "g_sxy g = real n * (x * y)"
  shows "\<exists>q. GetPdf g = Inr q"
proof -
  let ?v = "(1 - real n / (real n + g_a g)) * g_b g"
  have "0 \<le> ?v * ?v - 0 * 0"
    by simp
  from GaussianPdf2d_new_Fin [OF this]
  show ?thesis
    unfolding GetPdf_as_new same_point_blended [OF n a sums] by auto
qed

lemma same_point_throws:
  assumes n: "unat (g_sampleCount g) = n" "0 < n" "n < 65536"
    and a: "0 < g_a g"
    and sums: "g_sx g = real n * x" "g_sy g = real n * y" "g_sxx g = real n * x\<^sup>2"
      "g_syy g = real n * y\<^sup>2" "g_sxy g = real n * p"
    and large: "((1 - real n / (real n + g_a g)) * g_b g)\<^sup>2
                  < (real n / (real n + g_a g) * (p - x * y))\<^sup>2"
  shows "GetPdf g = Inl (RuntimeError ''Gaussian covaraince matrix must have determinant>0.0.'')"
  unfolding GetPdf_as_new same_point_blended [OF n a sums]
  using large by (intro GaussianPdf2d_new_throws) (simp add: minus_dbl_def power2_eq_square)

text \<open>
  The same sample once and twice, from a freshly constructed aggregator. The count goes
  from 1 to 2. Whenever both pdfs are fitted, the variances after two aggregations are at
  most those after one; and both are fitted when the \<^verbatim>\<open>float\<close> product \<open>x * y\<close> is exact.
\<close>

lemma same_sample_twice:
  assumes new: "GaussianAggregator2d_new a b = Inr g0"
    and px: "GetDataPoint d i 0 = Inr x" and py: "GetDataPoint d i 1 = Inr y"
  shows "\<exists>g1 g2.
           Gaussian_AggregateAll d [i] g0 = Inr g1 \<and>
           Gaussian_AggregateAll d [i, i] g0 = Inr g2 \<and>
           Gaussian_SampleCount g1 = 1 \<and>
           Gaussian_SampleCount g2 = 2 * Gaussian_SampleCount g1 \<and>
           (\<forall>p1 p2. GetPdf g1 = Inr p1 \<and> GetPdf g2 = Inr p2 \<longrightarrow>
                      VarianceX p2 \<le> VarianceX p1 \<and> VarianceY p2 \<le> VarianceY p1) \<and>
           (float_mul x y = x * y \<longrightarrow> (\<exists>p1 p2. GetPdf g1 = Inr p1 \<and> GetPdf g2 = Inr p2))"
proof -
  note g0 = GaussianAggregator2d_new_Inr [OF new]
  let ?g1 = "Gaussian_add x y g0"
  let ?g2 = "Gaussian_add x y ?g1"
  have a: "0 < g_a g0" and b: "0 \<le> g_b g0"
    using g0 by simp_all
  have agg1: "Gaussian_AggregateAll d [i] g0 = Inr ?g1"
    by (simp add: Gaussian_Aggregate_ok [OF px py])
  have agg2: "Gaussian_AggregateAll d [i, i] g0 = Inr ?g2"
    by (simp add: Gaussian_Aggregate_ok [OF px py])
  have cnt: "Gaussian_SampleCount ?g1 = 1" "Gaussian_SampleCount ?g2 = 2 * Gaussian_SampleCount ?g1"
    by (simp_all add: Gaussian_SampleCount_def Gaussian_add_def g0)
  have n1: "unat (g_sampleCount ?g1) = 1" "0 < (1::nat)" "(1::nat) < 65536"
    by (simp_all add: Gaussian_add_def g0)
  have n2: "unat (g_sampleCount ?g2) = 2" "0 < (2::nat)" "(2::nat) < 65536"
    by (simp_all add: Gaussian_add_def g0)
  have a1: "0 < g_a ?g1" and a2: "0 < g_a ?g2"
    using a by (simp_all add: Gaussian_add_def)
  have s1: "g_sx ?g1 = real 1 * x" "g_sy ?g1 = real 1 * y" "g_sxx ?g1 = real 1 * x\<^sup>2"
    "g_syy ?g1 = real 1 * y\<^sup>2" "g_sxy ?g1 = real 1 * float_mul x y"
    by (simp_all add: Gaussian_add_def g0)
  have s2: "g_sx ?g2 = real 2 * x" "g_sy ?g2 = real 2 * y" "g_sxx ?g2 = real 2 * x\<^sup>2"
    "g_syy ?g2 = real 2 * y\<^sup>2" "g_sxy ?g2 = real 2 * float_mul x y"
    by (simp_all add: Gaussian_add_def g0)
  have ab: "g_a ?g1 = g_a g0" "g_b ?g1 = g_b g0" "g_a ?g2 = g_a g0" "g_b ?g2 = g_b g0"
    by (simp_all add: Gaussian_add_def)
  have "1 / (1 + g_a g0) \<le> 2 / (2 + g_a g0)"
    using a by (simp add: field_simps)
  then have le: "(1 - 2 / (2 + g_a g0)) * g_b g0 \<le> (1 - 1 / (1 + g_a g0)) * g_b g0"
    using b by (intro mult_right_mono) simp_all
  have var: "VarianceX p2 \<le> VarianceX p1 \<and> VarianceY p2 \<le> VarianceY p1"
    if "GetPdf ?g1 = Inr p1 \<and> GetPdf ?g2 = Inr p2" for p1 p2
    using same_point_variances [OF n1 a1 s1, of p1] same_point_variances [OF n2 a2 s2, of p2]
      that le
    by (simp add: ab)
  have fit: "\<exists>p1 p2. GetPdf ?g1 = Inr p1 \<and> GetPdf ?g2 = Inr p2" if exact: "float_mul x y = x * y"
    using same_point_pdf [OF n1 a1 s1 [unfolded exact]] same_point_pdf [OF n2 a2 s2 [unfolded exact]]
    by blast
  show ?thesis
    using agg1 agg2 cnt var fit by blast
qed

lemma far_point_points:
  "GetDataPoint far_point 0 0 = Inr 8194" "GetDataPoint far_point 0 1 = Inr 8194"
  by (simp_all add: GetDataPoint_def far_point_def)

text \<open>
  Claim C9 at the sample \<open>(8194, 8194)\<close>, from a freshly constructed aggregator with
  \<open>a = b = 1\<close>. \<^verbatim>\<open>sxx_\<close> and \<^verbatim>\<open>syy_\<close> receive the exact square \<open>67141636\<close>, \<^verbatim>\<open>sxy_\<close> the
  \<^verbatim>\<open>float\<close> product \<open>67141632\<close>. The count goes from 1 to 2, but the covariance \<open>-4 \<alpha>\<close>
  exceeds the variances \<open>(1 - \<alpha>) b\<close>, the determinant is negative and \<^verbatim>\<open>GetPdf\<close> throws
  after one aggregation and after two: there is no pdf whose variances could be compared.
\<close>

theorem Gaussian_same_sample_twice_throws:
  "GaussianAggregator2d_new 1 1
     = Inr \<lparr>g_sampleCount = 0, g_sx = 0, g_sy = 0, g_sxx = 0, g_syy = 0, g_sxy = 0,
            g_a = 1, g_b = 1\<rparr> \<and>
   GetDataPoint far_point 0 0 = Inr 8194 \<and> GetDataPoint far_point 0 1 = Inr 8194 \<and>
   Gaussian_AggregateAll far_point [0]
       \<lparr>g_sampleCount = 0, g_sx = 0, g_sy = 0, g_sxx = 0, g_syy = 0, g_sxy = 0,
        g_a = 1, g_b = 1\<rparr>
     = Inr \<lparr>g_sampleCount = 1, g_sx = 8194, g_sy = 8194, g_sxx = 67141636,
            g_syy = 67141636, g_sxy = 67141632, g_a = 1, g_b = 1\<rparr> \<and>
   GetPdf \<lparr>g_sampleCount = 1, g_sx = 8194, g_sy = 8194, g_sxx = 67141636,
           g_syy = 67141636, g_sxy = 67141632, g_a = 1, g_b = 1\<rparr>
     = Inl (RuntimeError ''Gaussian covaraince matrix must have determinant>0.0.'') \<and>
   Gaussian_AggregateAll far_point [0, 0]
       \<lparr>g_sampleCount = 0, g_sx = 0, g_sy = 0, g_sxx = 0, g_syy = 0, g_sxy = 0,
        g_a = 1, g_b = 1\<rparr>
     = Inr \<lparr>g_sampleCount = 2, g_sx = 16388, g_sy = 16388, g_sxx = 134283272,
            g_syy = 134283272, g_sxy = 134283264, g_a = 1, g_b = 1\<rparr> \<and>
   GetPdf \<lparr>g_sampleCount = 2, g_sx = 16388, g_sy = 16388, g_sxx = 134283272,
           g_syy = 134283272, g_sxy = 134283264, g_a = 1, g_b = 1\<rparr>
     = Inl (RuntimeError ''Gaussian covaraince matrix must have determinant>0.0.'')"
proof -
  have new: "GaussianAggregator2d_new 1 1
     = Inr \<lparr>g_sampleCount = 0, g_sx = 0, g_sy = 0, g_sxx = 0, g_syy = 0, g_sxy = 0,
            g_a = 1, g_b = 1\<rparr>"
    by (simp add: GaussianAggregator2d_new_def)
  have once: "Gaussian_AggregateAll far_point [0]
       \<lparr>g_sampleCount = 0, g_sx = 0, g_sy = 0, g_sxx = 0, g_syy = 0, g_sxy = 0,
        g_a = 1, g_b = 1\<rparr>
     = Inr \<lparr>g_sampleCount = 1, g_sx = 8194, g_sy = 8194, g_sxx = 67141636,
            g_syy = 67141636, g_sxy = 67141632, g_a = 1, g_b = 1\<rparr>"
    by (simp add: Gaussian_Aggregate_ok [OF far_point_points] Gaussian_add_def float_mul_8194)
  have twice: "Gaussian_AggregateAll far_point [0, 0]
       \<lparr>g_sampleCount = 0, g_sx = 0, g_sy = 0, g_sxx = 0, g_syy = 0, g_sxy = 0,
        g_a = 1, g_b = 1\<rparr>
     = Inr \<lparr>g_sampleCount = 2, g_sx = 16388, g_sy = 16388, g_sxx = 134283272,
            g_syy = 134283272, g_sxy = 134283264, g_a = 1, g_b = 1\<rparr>"
    by (simp add: Gaussian_Aggregate_ok [OF far_point_points] Gaussian_add_def float_mul_8194)
  have pdf1: "GetPdf \<lparr>g_sampleCount = 1, g_sx = 8194, g_sy = 8194, g_sxx = 67141636,
           g_syy = 67141636, g_sxy = 67141632, g_a = 1, g_b = 1\<rparr>
     = Inl (RuntimeError ''Gaussian covaraince matrix must have determinant>0.0.'')"
    by (simp add: GetPdf_def GaussianPdf2d_new_def blended_vxx_def blended_vyy_def
        blended_vxy_def ml_cov_def prior_alpha_def of_uint_def minus_dbl_def)
  have pdf2: "GetPdf \<lparr>g_sampleCount = 2, g_sx = 16388, g_sy = 16388, g_sxx = 134283272,
           g_syy = 134283272, g_sxy = 134283264, g_a = 1, g_b = 1\<rparr>
     = Inl (RuntimeError ''Gaussian covaraince matrix must have determinant>0.0.'')"
    by (simp add: GetPdf_def GaussianPdf2d_new_def blended_vxx_def blended_vyy_def
        blended_vxy_def ml_cov_def prior_alpha_def of_uint_def minus_dbl_def)
  show ?thesis
    using new far_point_points once twice pdf1 pdf2 by simp
qed

text \<open>
  Claim C4 at 65536 samples. The divisor \<^verbatim>\<open>sampleCount_ * sampleCount_\<close> wraps to 0, the
  maximum-likelihood variances become \<open>-\<infinity>\<close>, and \<^verbatim>\<open>GetPdf\<close> returns a pdf whose variances
  are \<open>-\<infinity>\<close>, where the claim has \<open>\<alpha> \<cdot> 0 + (1 - \<alpha>) \<cdot> b = 1 / 65537\<close>.
\<close>

theorem GetPdf_overflow:
  "GaussianAggregator2d_new 1 1
     = Inr \<lparr>g_sampleCount = 0, g_sx = 0, g_sy = 0, g_sxx = 0, g_syy = 0, g_sxy = 0,
            g_a = 1, g_b = 1\<rparr> \<and>
   Gaussian_AggregateAll ones_data [0 ..< 65536]
       \<lparr>g_sampleCount = 0, g_sx = 0, g_sy = 0, g_sxx = 0, g_syy = 0, g_sxy = 0,
        g_a = 1, g_b = 1\<rparr>
     = Inr \<lparr>g_sampleCount = 65536, g_sx = 65536, g_sy = 65536, g_sxx = 65536,
            g_syy = 65536, g_sxy = 65536, g_a = 1, g_b = 1\<rparr> \<and>
   GetPdf \<lparr>g_sampleCount = 65536, g_sx = 65536, g_sy = 65536, g_sxx = 65536,
           g_syy = 65536, g_sxy = 65536, g_a = 1, g_b = 1\<rparr>
     = Inr \<lparr>mean_x = Fin 1, mean_y = Fin 1,
            Sigma_11 = NInf, Sigma_12 = NInf, Sigma_22 = NInf,
            inv_Sigma_11 = NaN, inv_Sigma_12 = NaN, inv_Sigma_22 = NaN,
            det_Sigma = NaN, log_det_Sigma = NaN\<rparr>"
proof -
  have new: "GaussianAggregator2d_new 1 1
     = Inr \<lparr>g_sampleCount = 0, g_sx = 0, g_sy = 0, g_sxx = 0, g_syy = 0, g_sxy = 0,
            g_a = 1, g_b = 1\<rparr>"
    by (simp add: GaussianAggregator2d_new_def)
  have agg: "Gaussian_AggregateAll ones_data [0 ..< 65536]
       \<lparr>g_sampleCount = 0, g_sx = 0, g_sy = 0, g_sxx = 0, g_syy = 0, g_sxy = 0,
        g_a = 1, g_b = 1\<rparr>
     = Inr \<lparr>g_sampleCount = 65536, g_sx = 65536, g_sy = 65536, g_sxx = 65536,
            g_syy = 65536, g_sxy = 65536, g_a = 1, g_b = 1\<rparr>"
    using ones_data_aggregate [of 65536 1 1] by simp
  have pdf: "GetPdf \<lparr>g_sampleCount = 65536, g_sx = 65536, g_sy = 65536, g_sxx = 65536,
           g_syy = 65536, g_sxy = 65536, g_a = 1, g_b = 1\<rparr>
     = Inr \<lparr>mean_x = Fin 1, mean_y = Fin 1,
            Sigma_11 = NInf, Sigma_12 = NInf, Sigma_22 = NInf,
            inv_Sigma_11 = NaN, inv_Sigma_12 = NaN, inv_Sigma_22 = NaN,
            det_Sigma = NaN, log_det_Sigma = NaN\<rparr>"
    by (simp add: GetPdf_def GaussianPdf2d_new_def blended_vxx_def blended_vyy_def
        blended_vxy_def ml_cov_def prior_alpha_def of_uint_def minus_dbl_def signed_inf_def)
  show ?thesis using new agg pdf by simp
qed

text \<open>
  Claim C2, amended. When the blended covariance has determinant zero, \<^verbatim>\<open>GetPdf\<close> returns
  a pdf and its \<^verbatim>\<open>Entropy()\<close> is \<open>+\<infinity>\<close>; when the determinant is negative, \<^verbatim>\<open>GetPdf\<close>
  throws in the constructor of the pdf, and no entropy is computed.
\<close>

theorem GetPdf_Entropy_degenerate:
  "(deq (blended_det g) (Fin 0) \<longrightarrow>
      (\<exists>p. GetPdf g = Inr p \<and> GaussianPdf2d_Entropy p = PInf)) \<and>
   (blended_det g < Fin 0 \<longrightarrow>
      GetPdf g = Inl (RuntimeError ''Gaussian covaraince matrix must have determinant>0.0.''))"
  unfolding GetPdf_as_new blended_det_def
  using GaussianPdf2d_new_zero GaussianPdf2d_new_throws by blast

theorem GetPdf_Entropy_degenerate_witness:
  "deq (blended_det degenerate_state) (Fin 0) \<and>
   (\<exists>p. GetPdf degenerate_state = Inr p \<and> GaussianPdf2d_Entropy p = PInf) \<and>
   blended_det overflowed_state < Fin 0 \<and>
   GetPdf overflowed_state
     = Inl (RuntimeError ''Gaussian covaraince matrix must have determinant>0.0.'')"
proof -
  have z: "deq (blended_det degenerate_state) (Fin 0)"
    by (simp add: degenerate_state_def blended_det_def blended_vxx_def blended_vyy_def
        blended_vxy_def ml_cov_def prior_alpha_def of_uint_def minus_dbl_def)
  have n: "blended_det overflowed_state < Fin 0"
    by (simp add: overflowed_state_def blended_det_def blended_vxx_def blended_vyy_def
        blended_vxy_def ml_cov_def prior_alpha_def of_uint_def minus_dbl_def)
  show ?thesis
    using z n GetPdf_Entropy_degenerate [of degenerate_state]
      GetPdf_Entropy_degenerate [of overflowed_state]
    by blast
qed

text \<open>
  Claim C2 as stated: after 65537 samples at \<open>(1, 1)\<close> the wrapped divisor makes the
  determinant negative, and \<^verbatim>\<open>GetPdf\<close> fails instead of yielding an entropy of \<open>+\<infinity>\<close>.
\<close>

theorem GetPdf_negative_determinant_counterexample:
  "GaussianAggregator2d_new 1 1
     = Inr \<lparr>g_sampleCount = 0, g_sx = 0, g_sy = 0, g_sxx = 0, g_syy = 0, g_sxy = 0,
            g_a = 1, g_b = 1\<rparr> \<and>
   Gaussian_AggregateAll ones_data [0 ..< 65537]
       \<lparr>g_sampleCount = 0, g_sx = 0, g_sy = 0, g_sxx = 0, g_syy = 0, g_sxy = 0,
        g_a = 1, g_b = 1\<rparr>
     = Inr \<lparr>g_sampleCount = 65537, g_sx = 65537, g_sy = 65537, g_sxx = 65537,
            g_syy = 65537, g_sxy = 65537, g_a = 1, g_b = 1\<rparr> \<and>
   blended_det \<lparr>g_sampleCount = 65537, g_sx = 65537, g_sy = 65537, g_sxx = 65537,
                g_syy = 65537, g_sxy = 65537, g_a = 1, g_b = 1\<rparr> \<le> Fin 0 \<and>
   GetPdf \<lparr>g_sampleCount = 65537, g_sx = 65537, g_sy = 65537, g_sxx = 65537,
           g_syy = 65537, g_sxy = 65537, g_a = 1, g_b = 1\<rparr>
     = Inl (RuntimeError ''Gaussian covaraince matrix must have determinant>0.0.'')"
proof -
  have new: "GaussianAggregator2d_new 1 1
     = Inr \<lparr>g_sampleCount = 0, g_sx = 0, g_sy = 0, g_sxx = 0, g_syy = 0, g_sxy = 0,
            g_a = 1, g_b = 1\<rparr>"
    by (simp add: GaussianAggregator2d_new_def)
  have agg: "Gaussian_AggregateAll ones_data [0 ..< 65537]
       \<lparr>g_sampleCount = 0, g_sx = 0, g_sy = 0, g_sxx = 0, g_syy = 0, g_sxy = 0,
        g_a = 1, g_b = 1\<rparr>
     = Inr \<lparr>g_sampleCount = 65537, g_sx = 65537, g_sy = 65537, g_sxx = 65537,
            g_syy = 65537, g_sxy = 65537, g_a = 1, g_b = 1\<rparr>"
    using ones_data_aggregate [of 65537 1 1] by simp
  have det: "blended_det \<lparr>g_sampleCount = 65537, g_sx = 65537, g_sy = 65537, g_sxx = 65537,
                g_syy = 65537, g_sxy = 65537, g_a = 1, g_b = 1\<rparr> \<le> Fin 0"
    by (simp add: blended_det_def blended_vxx_def blended_vyy_def
        blended_vxy_def ml_cov_def prior_alpha_def of_uint_def minus_dbl_def)
  have pdf: "GetPdf \<lparr>g_sampleCount = 65537, g_sx = 65537, g_sy = 65537, g_sxx = 65537,
           g_syy = 65537, g_sxy = 65537, g_a = 1, g_b = 1\<rparr>
     = Inl (RuntimeError ''Gaussian covaraince matrix must have determinant>0.0.'')"
    by (simp add: GetPdf_def GaussianPdf2d_new_def blended_vxx_def blended_vyy_def
        blended_vxy_def ml_cov_def prior_alpha_def of_uint_def minus_dbl_def)
  show ?thesis using new agg det pdf by simp
qed

subsection \<open>The fitted Gaussian below 65536 samples\<close>

lemma Gaussian_AggregateAll_sums:
  assumes "samples_exist d is"
  shows "Gaussian_AggregateAll d is g =
           Inr (g\<lparr>g_sx := g_sx g + sum_list (sample_xs d is),
                  g_sy := g_sy g + sum_list (sample_ys d is),
                  g_sxx := g_sxx g + (\<Sum>x\<leftarrow>sample_xs d is. x\<^sup>2),
                  g_syy := g_syy g + (\<Sum>y\<leftarrow>sample_ys d is. y\<^sup>2),
                  g_sxy := g_sxy g
                    + (\<Sum>(x, y)\<leftarrow>zip (sample_xs d is) (sample_ys d is). float_mul x y),
                  g_sampleCount := g_sampleCount g + of_nat (length is)\<rparr>)"
  using assms
proof (induction "is" arbitrary: g)
  case Nil
  then show ?case by (simp add: sample_xs_def sample_ys_def)
next
  case (Cons i "is")
  then have i: "i * dimension d + 1 < length (data d)" and rest: "samples_exist d is"
    by (simp_all add: samples_exist_def)
  have px: "GetDataPoint d i 0 = Inr (data d ! (i * dimension d + 0))"
    and py: "GetDataPoint d i 1 = Inr (data d ! (i * dimension d + 1))"
    using i by (simp_all add: GetDataPoint_def)
  show ?case
    by (simp add: Gaussian_Aggregate_ok [OF px py] Cons.IH [OF rest] Gaussian_add_def
        sample_xs_def sample_ys_def algebra_simps)
qed

lemma products_exact_sum:
  assumes "products_exact d is"
  shows "(\<Sum>(x, y)\<leftarrow>zip (sample_xs d is) (sample_ys d is). float_mul x y)
       = (\<Sum>(x, y)\<leftarrow>zip (sample_xs d is) (sample_ys d is). x * y)"
  using assms
  by (induction "is") (simp_all add: products_exact_def sample_xs_def sample_ys_def)

text \<open>The sum of squared deviations from any two centres, in terms of the running sums.\<close>

lemma deviations_expand:
  fixes m1 m2 :: real
  assumes "length xs = length ys"
  shows "(\<Sum>(x, y)\<leftarrow>zip xs ys. (x - m1) * (y - m2))
       = (\<Sum>(x, y)\<leftarrow>zip xs ys. x * y) - m1 * sum_list ys - m2 * sum_list xs
         + real (length xs) * m1 * m2"
  using assms by (induction xs ys rule: list_induct2) (simp_all add: algebra_simps)

lemma ml_covariance_sums:
  assumes "length xs = length ys" "xs \<noteq> []"
  shows "ml_covariance xs ys
       = (\<Sum>(x, y)\<leftarrow>zip xs ys. x * y) / real (length xs)
         - sum_list xs * sum_list ys / (real (length xs) * real (length xs))"
proof -
  have n: "real (length xs) \<noteq> 0" using assms(2) by simp
  show ?thesis
    unfolding ml_covariance_def deviations_expand [OF assms(1)] mean_def assms(1) [symmetric]
    using n by (simp add: field_simps)
qed

lemma zip_same_squares:
  fixes xs :: "real list"
  shows "(\<Sum>(x, y)\<leftarrow>zip xs xs. x * y) = (\<Sum>x\<leftarrow>xs. x\<^sup>2)"
  by (induction xs) (simp_all add: power2_eq_square)

text \<open>
  The covariance matrix of a sample is positive semi-definite: the quadratic form
  \<open>u\<^sup>2 M\<^sub>x\<^sub>x + 2 u v M\<^sub>x\<^sub>y + v\<^sup>2 M\<^sub>y\<^sub>y\<close> is a mean of squares.
\<close>

lemma quadratic_form_squares:
  fixes u v m1 m2 :: real
  assumes "length xs = length ys"
  shows "(\<Sum>(x, y)\<leftarrow>zip xs ys. (u * (x - m1) + v * (y - m2))\<^sup>2)
       = u\<^sup>2 * (\<Sum>(x, y)\<leftarrow>zip xs xs. (x - m1) * (y - m1))
         + 2 * u * v * (\<Sum>(x, y)\<leftarrow>zip xs ys. (x - m1) * (y - m2))
         + v\<^sup>2 * (\<Sum>(x, y)\<leftarrow>zip ys ys. (x - m2) * (y - m2))"
  using assms
  by (induction xs ys rule: list_induct2) (simp_all add: algebra_simps power2_eq_square)

lemma squares_nonneg:
  fixes f :: "'a \<Rightarrow> real"
  shows "0 \<le> (\<Sum>p\<leftarrow>ps. (f p)\<^sup>2)"
  by (induction ps) simp_all

lemma ml_covariance_form:
  assumes "length xs = length ys"
  shows "0 \<le> u\<^sup>2 * ml_covariance xs xs + 2 * u * v * ml_covariance xs ys
             + v\<^sup>2 * ml_covariance ys ys"
proof -
  let ?n = "real (length xs)"
  let ?Q = "\<Sum>(x, y)\<leftarrow>zip xs ys. (u * (x - mean xs) + v * (y - mean ys))\<^sup>2"
  have "0 \<le> ?Q"
    using squares_nonneg [of "\<lambda>(x, y). u * (x - mean xs) + v * (y - mean ys)" "zip xs ys"]
    by (simp add: case_prod_unfold)
  then have "0 \<le> ?Q / ?n"
    by simp
  also have "?Q / ?n = u\<^sup>2 * ml_covariance xs xs + 2 * u * v * ml_covariance xs ys
             + v\<^sup>2 * ml_covariance ys ys"
    unfolding quadratic_form_squares [OF assms] ml_covariance_def assms [symmetric]
    by (simp add: add_divide_distrib)
  finally show ?thesis .
qed

text \<open>A positive semi-definite symmetric \<open>2 \<times> 2\<close> matrix has a non-negative determinant.\<close>

lemma psd_determinant:
  fixes A B C :: real
  assumes form: "\<And>u v. 0 \<le> u\<^sup>2 * A + 2 * u * v * B + v\<^sup>2 * C"
  shows "0 \<le> A" "0 \<le> C" "B\<^sup>2 \<le> A * C"
proof -
  show A: "0 \<le> A" using form [of 1 0] by simp
  show C: "0 \<le> C" using form [of 0 1] by simp
  show "B\<^sup>2 \<le> A * C"
  proof (cases "C = 0")
    case True
    have "B = 0"
    proof (rule ccontr)
      assume "B \<noteq> 0"
      let ?v = "- (A + 1) / (2 * B)"
      have "0 \<le> 1\<^sup>2 * A + 2 * 1 * ?v * B + ?v\<^sup>2 * C"
        by (rule form)
      moreover have "2 * 1 * ?v * B = - (A + 1)"
        using \<open>B \<noteq> 0\<close> by simp
      ultimately have "0 \<le> A + - (A + 1)"
        using True by simp
      then show False by simp
    qed
    then show ?thesis using True by simp
  next
    case False
    then have "0 < C" using C by simp
    have "0 \<le> C\<^sup>2 * A + 2 * C * (- B) * B + (- B)\<^sup>2 * C"
      using form [of C "- B"] .
    then have "0 \<le> C * (A * C - B\<^sup>2)"
      by (simp add: algebra_simps power2_eq_square)
    then show ?thesis
      using \<open>0 < C\<close> by (simp add: zero_le_mult_iff)
  qed
qed

lemma blended_determinant_nonneg:
  fixes al c A B C :: real
  assumes "0 \<le> al" "0 \<le> c" "0 \<le> A" "0 \<le> C" "B\<^sup>2 \<le> A * C"
  shows "0 \<le> (al * A + c) * (al * C + c) - (al * B) * (al * B)"
proof -
  have "(al * A + c) * (al * C + c) - (al * B) * (al * B)
      = al\<^sup>2 * (A * C - B\<^sup>2) + al * c * (A + C) + c\<^sup>2"
    by (simp add: algebra_simps power2_eq_square)
  moreover have "0 \<le> al\<^sup>2 * (A * C - B\<^sup>2)"
    using assms(5) by simp
  moreover have "0 \<le> al * c * (A + C)"
    using assms(1-4) by simp
  ultimately show ?thesis by simp
qed

lemma sample_lengths:
  "length (sample_xs d is) = length is" "length (sample_ys d is) = length is"
  by (simp_all add: sample_xs_def sample_ys_def)

text \<open>
  While \<open>n * n\<close> does not wrap, that is for \<open>1 \<le> n < 65536\<close> aggregated samples, and when no
  \<^verbatim>\<open>float\<close> product \<open>x * y\<close> of a sample is rounded, \<^verbatim>\<open>GetPdf\<close>
  succeeds on an aggregator built by the constructor: the mean is \<open>(S\<^sub>x / n, S\<^sub>y / n)\<close>, the
  variances are \<open>\<alpha> \<cdot> ML + (1 - \<alpha>) \<cdot> b\<close> and the covariance is \<open>\<alpha> \<cdot> ML\<close>, with effective
  \<open>a \<ge> 0.001\<close> and \<open>b \<ge> 1\<close>. The blended covariance matrix is positive semi-definite, so
  the constructor of the pdf does not throw.
\<close>

lemma GetPdf_maximum_likelihood:
  assumes new: "GaussianAggregator2d_new a b = Inr g0"
    and ex: "samples_exist d is"
    and exact: "products_exact d is"
    and n: "0 < length is" "length is < 65536"
  shows "\<exists>g p. Gaussian_AggregateAll d is g0 = Inr g \<and> GetPdf g = Inr p \<and>
           0.001 \<le> g_a g \<and> 1 \<le> g_b g \<and>
           MeanX p = Fin (mean (sample_xs d is)) \<and>
           MeanY p = Fin (mean (sample_ys d is)) \<and>
           VarianceX p = Fin (prior_weight (length is) (g_a g)
                                * ml_covariance (sample_xs d is) (sample_xs d is)
                              + (1 - prior_weight (length is) (g_a g)) * g_b g) \<and>
           VarianceY p = Fin (prior_weight (length is) (g_a g)
                                * ml_covariance (sample_ys d is) (sample_ys d is)
                              + (1 - prior_weight (length is) (g_a g)) * g_b g) \<and>
           CovarianceXY p = Fin (prior_weight (length is) (g_a g)
                                   * ml_covariance (sample_xs d is) (sample_ys d is))"
proof -
  note g0 = GaussianAggregator2d_new_Inr [OF new]
  let ?xs = "sample_xs d is" and ?ys = "sample_ys d is" and ?n = "length is"
  let ?g = "g0\<lparr>g_sx := g_sx g0 + sum_list ?xs,
                g_sy := g_sy g0 + sum_list ?ys,
                g_sxx := g_sxx g0 + (\<Sum>x\<leftarrow>?xs. x\<^sup>2),
                g_syy := g_syy g0 + (\<Sum>y\<leftarrow>?ys. y\<^sup>2),
                g_sxy := g_sxy g0 + (\<Sum>(x, y)\<leftarrow>zip ?xs ?ys. x * y),
                g_sampleCount := g_sampleCount g0 + of_nat ?n\<rparr>"
  let ?al = "prior_weight ?n (g_a ?g)"
  let ?c = "(1 - ?al) * g_b ?g"
  have agg: "Gaussian_AggregateAll d is g0 = Inr ?g"
    unfolding Gaussian_AggregateAll_sums [OF ex] products_exact_sum [OF exact] by (rule refl)
  have "?n < 2 ^ 32" using n(2) by simp
  then have cnt: "unat (g_sampleCount ?g) = ?n"
    by (simp add: g0 unat_of_nat)
  have a: "0 < g_a ?g" "0.001 \<le> g_a ?g" and b: "1 \<le> g_b ?g"
    using g0 by simp_all
  have ne: "?xs \<noteq> []" "?ys \<noteq> []"
    using n(1) by (simp_all add: sample_xs_def sample_ys_def)
  have len: "length ?xs = length ?ys" "length ?xs = ?n" "length ?ys = ?n"
    by (simp_all add: sample_lengths)
  have mxx: "ml_covariance ?xs ?xs = g_sxx ?g / real ?n - g_sx ?g * g_sx ?g / (real ?n * real ?n)"
    using ml_covariance_sums [OF refl ne(1)] by (simp add: zip_same_squares len g0)
  have myy: "ml_covariance ?ys ?ys = g_syy ?g / real ?n - g_sy ?g * g_sy ?g / (real ?n * real ?n)"
    using ml_covariance_sums [OF refl ne(2)] by (simp add: zip_same_squares len g0)
  have mxy: "ml_covariance ?xs ?ys = g_sxy ?g / real ?n - g_sx ?g * g_sy ?g / (real ?n * real ?n)"
    using ml_covariance_sums [OF len(1) ne(1)] by (simp add: len g0)
  have vxx: "blended_vxx ?g = Fin (?al * ml_covariance ?xs ?xs + ?c)"
    and vyy: "blended_vyy ?g = Fin (?al * ml_covariance ?ys ?ys + ?c)"
    and vxy: "blended_vxy ?g = Fin (?al * ml_covariance ?xs ?ys)"
    unfolding blended_Fin [OF cnt n a(1)] mxx myy mxy prior_weight_def by simp_all
  have al: "0 \<le> ?al" "?al \<le> 1"
    using a(1) by (simp_all add: prior_weight_def)
  then have c: "0 \<le> ?c"
    using b by simp
  have psd: "0 \<le> ml_covariance ?xs ?xs" "0 \<le> ml_covariance ?ys ?ys"
    "(ml_covariance ?xs ?ys)\<^sup>2 \<le> ml_covariance ?xs ?xs * ml_covariance ?ys ?ys"
    using psd_determinant [of "ml_covariance ?xs ?xs" "ml_covariance ?xs ?ys"
        "ml_covariance ?ys ?ys", OF ml_covariance_form [OF len(1)]]
    by simp_all
  have det: "0 \<le> (?al * ml_covariance ?xs ?xs + ?c) * (?al * ml_covariance ?ys ?ys + ?c)
                 - (?al * ml_covariance ?xs ?ys) * (?al * ml_covariance ?xs ?ys)"
    by (rule blended_determinant_nonneg [OF al(1) c psd])
  have means: "Fin (g_sx ?g) / of_uint (g_sampleCount ?g) = Fin (mean ?xs)"
    "Fin (g_sy ?g) / of_uint (g_sampleCount ?g) = Fin (mean ?ys)"
    unfolding of_uint_Fin [OF cnt] using n(1) by (simp_all add: mean_def len g0)
  from GaussianPdf2d_new_Fin [OF det]
  obtain p where p: "GetPdf ?g = Inr p" "mean_x p = Fin (mean ?xs)" "mean_y p = Fin (mean ?ys)"
    "Sigma_11 p = Fin (?al * ml_covariance ?xs ?xs + ?c)"
    "Sigma_12 p = Fin (?al * ml_covariance ?xs ?ys)"
    "Sigma_22 p = Fin (?al * ml_covariance ?ys ?ys + ?c)"
    unfolding GetPdf_as_new vxx vyy vxy means by blast
  show ?thesis
    using agg p a(2) b
    by (intro exI [of _ ?g], intro exI [of _ p])
       (simp add: MeanX_def MeanY_def VarianceX_def VarianceY_def CovarianceXY_def)
qed

subsection \<open>The header and version check of \<^verbatim>\<open>Forest::Deserialize\<close>\<close>

lemma header_text_facts:
  "length header_text = 43" "NUL \<notin> set header_text"
  "binaryFileHeader = header_text @ [NUL]"
  by (simp_all add: header_text_def NUL_def binaryFileHeader_def)

lemma c_string_terminated:
  assumes "NUL \<notin> set s"
  shows "c_string (s @ NUL # rest) = s"
  using assms unfolding c_string_def by (induction s) auto

lemma c_string_header: "c_string binaryFileHeader = header_text"
  unfolding header_text_facts(3) by (rule c_string_terminated) (rule header_text_facts(2))

lemma strlen_header: "strlen binaryFileHeader = 43"
  by (simp add: strlen_def c_string_header header_text_facts(1))

lemma c_string_padded:
  "c_string (got @ replicate (Suc k) NUL) = c_string got"
  unfolding c_string_def by (induction got) auto

lemma c_string_full:
  assumes "length (c_string s) = length s"
  shows "c_string s = s"
  using assms unfolding c_string_def
  by (metis takeWhile_eq_all_conv length_takeWhile_le takeWhile_dropWhile_id append_self_conv
      length_0_conv length_append add_diff_cancel_left' diff_self_eq_0)

lemma header_buffer:
  assumes "length got \<le> 43"
  shows "c_string ((overwrite got (replicate 44 NUL))[43 := NUL]) = c_string got"
proof -
  obtain k where k: "43 = length got + k"
    using assms le_Suc_ex by blast
  then have k': "44 - length got = Suc k"
    by linarith
  have ov: "overwrite got (replicate 44 NUL) = got @ replicate (Suc k) NUL"
    by (simp only: overwrite_def drop_replicate k')
  have "(got @ replicate (Suc k) NUL) ! (length got + k) = NUL"
    by (simp only: nth_append_length_plus nth_replicate lessI)
  then have "(got @ replicate (Suc k) NUL)[length got + k := NUL] = got @ replicate (Suc k) NUL"
    by (metis list_update_id)
  then show ?thesis
    unfolding ov k by (simp only: c_string_padded)
qed

lemma istream_read_length: "length (fst (istream_read n i)) \<le> n"
  by (simp add: istream_read_def)

lemma istream_read_enough:
  assumes "\<not> failbit i" "n \<le> length (bytes i)"
  shows "istream_read n i = (take n (bytes i), i\<lparr>bytes := drop n (bytes i)\<rparr>)"
  using assms by (simp add: istream_read_def)

lemma overwrite_full:
  assumes "length got = length buffer"
  shows "overwrite got buffer = got"
  using assms by (simp add: overwrite_def)

lemma wrong_header_differs:
  assumes "failbit i \<or> take 43 (bytes i) \<noteq> header_text"
  shows "c_string (fst (istream_read 43 i)) \<noteq> header_text"
proof
  let ?got = "fst (istream_read 43 i)"
  assume eq: "c_string ?got = header_text"
  have "length (c_string ?got) \<le> length ?got"
    by (simp add: c_string_def length_takeWhile_le)
  then have len: "length ?got = 43" and "length (c_string ?got) = length ?got"
    using eq istream_read_length [of 43 i] by (simp_all add: header_text_facts(1))
  then have got: "?got = header_text"
    using eq c_string_full by metis
  have "\<not> failbit i"
    using len by (auto simp: istream_read_def)
  moreover have "?got = take 43 (bytes i)"
    using len \<open>\<not> failbit i\<close> by (auto simp: istream_read_def split: if_splits)
  ultimately show False
    using assms got by simp
qed

lemma Forest_Deserialize_wrong_header:
  assumes "failbit i \<or> take 43 (bytes i) \<noteq> header_text"
  shows "Forest_Deserialize td i = Inl (RuntimeError ''Unsupported forest format.'')"
proof -
  have "strcmp_differs ((overwrite (fst (istream_read 43 i)) (replicate 44 NUL))[43 := NUL])
          binaryFileHeader"
    unfolding strcmp_differs_def c_string_header
    using header_buffer [OF istream_read_length [of 43 i]] wrong_header_differs [OF assms]
    by simp
  then show ?thesis
    by (simp add: Forest_Deserialize_def strlen_header split_beta Let_def)
qed

lemma istream_read_fst:
  assumes "\<not> failbit i"
  shows "fst (istream_read n i) = take n (bytes i)"
  using assms by (simp add: istream_read_def)

lemma istream_read_twice_fst:
  assumes "\<not> failbit i"
  shows "fst (istream_read 4 (snd (istream_read 4 i))) = take 4 (drop 4 (bytes i))"
  using assms by (simp add: istream_read_def)

lemma int_of_bytes_zeros: "int_of_bytes (replicate k NUL) = 0"
  by (induction k) (simp_all add: int_of_bytes_def NUL_def)

lemma int_of_bytes_padded: "int_of_bytes (bs @ replicate k NUL) = int_of_bytes bs"
proof (induction bs)
  case Nil
  then show ?case by (simp add: int_of_bytes_zeros) (simp add: int_of_bytes_def)
next
  case (Cons c bs)
  then show ?case by (simp add: int_of_bytes_def)
qed

lemma int_of_bytes_overwrite:
  assumes "length got \<le> 4"
  shows "int_of_bytes (overwrite got (replicate 4 NUL)) = int_of_bytes got"
  by (simp add: overwrite_def int_of_bytes_padded)

lemma Forest_Deserialize_versions:
  assumes "\<not> failbit i" "take 43 (bytes i) = header_text"
  shows "Forest_Deserialize td i =
     (if stream_major i = 0 \<and> stream_minor i = 0
      then let (got, i4) = istream_read 4
                 (snd (istream_read 4 (snd (istream_read 4 (i\<lparr>bytes := drop 43 (bytes i)\<rparr>)))))
           in if length got < 4 then Inl UndefinedBehaviour
              else (case read_trees td (nat (sint (int_of_bytes got))) i4 of
                      Inl e \<Rightarrow> Inl e
                    | Inr (trees, i5) \<Rightarrow> Inr trees)
      else Inl (RuntimeError ''Unsupported file version number.''))"
proof -
  let ?i1 = "i\<lparr>bytes := drop 43 (bytes i)\<rparr>"
  have "length (take 43 (bytes i)) = 43"
    using assms(2) by (simp only: header_text_facts(1))
  then have len: "43 \<le> length (bytes i)"
    by simp
  have r1: "istream_read 43 i = (header_text, ?i1)"
    using assms len by (simp add: istream_read_enough)
  have same: "\<not> strcmp_differs ((overwrite header_text (replicate 44 NUL))[43 := NUL])
                binaryFileHeader"
    unfolding strcmp_differs_def c_string_header
    using header_buffer [of header_text] c_string_terminated [of header_text "[]"]
    by (simp add: header_text_facts c_string_def)
  have nf: "\<not> failbit ?i1"
    using assms(1) by simp
  have major: "int_of_bytes (overwrite (fst (istream_read 4 ?i1)) (replicate 4 NUL))
             = stream_major i"
    unfolding istream_read_fst [OF nf] stream_major_def
    by (simp add: int_of_bytes_overwrite)
  have minor: "int_of_bytes (overwrite (fst (istream_read 4 (snd (istream_read 4 ?i1))))
                 (replicate 4 NUL)) = stream_minor i"
    unfolding istream_read_twice_fst [OF nf] stream_minor_def
    by (simp add: int_of_bytes_overwrite)
  show ?thesis
    using same major minor
    by (simp add: Forest_Deserialize_def strlen_header r1 split_beta Let_def)
qed

text \<open>
  Claim C3. \<^verbatim>\<open>Forest::Deserialize\<close> throws for every stream whose leading 43 bytes are not
  the ASCII header (a failed or short stream included), and for every stream with the
  header whose version pair is not \<open>(0, 0)\<close>; a call that ends otherwise had the header
  and version \<open>(0, 0)\<close>; and with these it goes on to read the tree count and that many
  trees from the rest of the stream.
\<close>

theorem Forest_Deserialize_header_version:
  "(failbit i \<or> take 43 (bytes i) \<noteq> header_text \<longrightarrow>
      Forest_Deserialize td i = Inl (RuntimeError ''Unsupported forest format.'')) \<and>
   (\<not> failbit i \<and> take 43 (bytes i) = header_text \<and>
    (stream_major i, stream_minor i) \<noteq> (0, 0) \<longrightarrow>
      Forest_Deserialize td i = Inl (RuntimeError ''Unsupported file version number.'')) \<and>
   (Forest_Deserialize td i \<noteq> Inl (RuntimeError ''Unsupported forest format.'') \<and>
    Forest_Deserialize td i \<noteq> Inl (RuntimeError ''Unsupported file version number.'') \<longrightarrow>
      \<not> failbit i \<and> take 43 (bytes i) = header_text \<and>
      (stream_major i, stream_minor i) = (0, 0)) \<and>
   (\<not> failbit i \<and> take 43 (bytes i) = header_text \<and> 55 \<le> length (bytes i) \<and>
    (stream_major i, stream_minor i) = (0, 0) \<longrightarrow>
      Forest_Deserialize td i =
        (case read_trees td (nat (sint (stream_tree_count i)))
                (i\<lparr>bytes := drop 55 (bytes i)\<rparr>) of
           Inl e \<Rightarrow> Inl e
         | Inr (trees, rest) \<Rightarrow> Inr trees))"
proof -
  have fmt: "Forest_Deserialize td i = Inl (RuntimeError ''Unsupported forest format.'')"
    if "failbit i \<or> take 43 (bytes i) \<noteq> header_text"
    using that by (rule Forest_Deserialize_wrong_header)
  have ver: "Forest_Deserialize td i = Inl (RuntimeError ''Unsupported file version number.'')"
    if "\<not> failbit i" "take 43 (bytes i) = header_text"
      "(stream_major i, stream_minor i) \<noteq> (0, 0)"
    using that Forest_Deserialize_versions [of i td] by auto
  have go: "Forest_Deserialize td i =
        (case read_trees td (nat (sint (stream_tree_count i)))
                (i\<lparr>bytes := drop 55 (bytes i)\<rparr>) of
           Inl e \<Rightarrow> Inl e
         | Inr (trees, rest) \<Rightarrow> Inr trees)"
    if nf: "\<not> failbit i" and hd: "take 43 (bytes i) = header_text"
      and len: "55 \<le> length (bytes i)"
      and zero: "(stream_major i, stream_minor i) = (0, 0)"
  proof -
    have r2: "istream_read 4 (i\<lparr>bytes := drop 43 (bytes i)\<rparr>)
          = (take 4 (drop 43 (bytes i)), i\<lparr>bytes := drop 47 (bytes i)\<rparr>)"
      using nf len by (simp add: istream_read_enough)
    have r3: "istream_read 4 (i\<lparr>bytes := drop 47 (bytes i)\<rparr>)
          = (take 4 (drop 47 (bytes i)), i\<lparr>bytes := drop 51 (bytes i)\<rparr>)"
      using nf len by (simp add: istream_read_enough)
    have r4: "istream_read 4 (i\<lparr>bytes := drop 51 (bytes i)\<rparr>)
          = (take 4 (drop 51 (bytes i)), i\<lparr>bytes := drop 55 (bytes i)\<rparr>)"
      using nf len by (simp add: istream_read_enough)
    have l4: "\<not> length (take 4 (drop 51 (bytes i))) < 4"
      using len by simp
    have D: "Forest_Deserialize td i =
      (let (got, i4) = istream_read 4 (i\<lparr>bytes := drop 51 (bytes i)\<rparr>)
           in if length got < 4 then Inl UndefinedBehaviour
              else (case read_trees td (nat (sint (int_of_bytes got))) i4 of
                      Inl e \<Rightarrow> Inl e
                    | Inr (trees, i5) \<Rightarrow> Inr trees))"
      using Forest_Deserialize_versions [OF nf hd, of td] zero by (simp add: r2 r3)
    show ?thesis
      unfolding D r4 stream_tree_count_def using l4
      by (simp only: Let_def split_conv if_False)
  qed
  have only: "\<not> failbit i \<and> take 43 (bytes i) = header_text \<and>
      (stream_major i, stream_minor i) = (0, 0)"
    if a: "Forest_Deserialize td i \<noteq> Inl (RuntimeError ''Unsupported forest format.'')"
      and b: "Forest_Deserialize td i \<noteq> Inl (RuntimeError ''Unsupported file version number.'')"
  proof -
    have ok: "\<not> (failbit i \<or> take 43 (bytes i) \<noteq> header_text)"
    proof
      assume "failbit i \<or> take 43 (bytes i) \<noteq> header_text"
      from fmt [OF this] a show False by contradiction
    qed
    then have nf: "\<not> failbit i" and hd: "take 43 (bytes i) = header_text"
      by simp_all
    have "(stream_major i, stream_minor i) = (0, 0)"
    proof (rule ccontr)
      assume "(stream_major i, stream_minor i) \<noteq> (0, 0)"
      from ver [OF nf hd this] b show False by contradiction
    qed
    with nf hd show ?thesis by simp
  qed
  have c1: "failbit i \<or> take 43 (bytes i) \<noteq> header_text \<longrightarrow>
      Forest_Deserialize td i = Inl (RuntimeError ''Unsupported forest format.'')"
    using fmt by (rule impI)
  have c2: "\<not> failbit i \<and> take 43 (bytes i) = header_text \<and>
      (stream_major i, stream_minor i) \<noteq> (0, 0) \<longrightarrow>
      Forest_Deserialize td i = Inl (RuntimeError ''Unsupported file version number.'')"
  proof (rule impI)
    assume h: "\<not> failbit i \<and> take 43 (bytes i) = header_text \<and>
      (stream_major i, stream_minor i) \<noteq> (0, 0)"
    show "Forest_Deserialize td i = Inl (RuntimeError ''Unsupported file version number.'')"
      by (rule ver [OF conjunct1 [OF h] conjunct1 [OF conjunct2 [OF h]]
            conjunct2 [OF conjunct2 [OF h]]])
  qed
  have c3: "Forest_Deserialize td i \<noteq> Inl (RuntimeError ''Unsupported forest format.'') \<and>
      Forest_Deserialize td i \<noteq> Inl (RuntimeError ''Unsupported file version number.'') \<longrightarrow>
      \<not> failbit i \<and> take 43 (bytes i) = header_text \<and>
      (stream_major i, stream_minor i) = (0, 0)"
  proof (rule impI)
    assume h: "Forest_Deserialize td i \<noteq> Inl (RuntimeError ''Unsupported forest format.'') \<and>
      Forest_Deserialize td i \<noteq> Inl (RuntimeError ''Unsupported file version number.'')"
    show "\<not> failbit i \<and> take 43 (bytes i) = header_text \<and>
      (stream_major i, stream_minor i) = (0, 0)"
      by (rule only [OF conjunct1 [OF h] conjunct2 [OF h]])
  qed
  have c4: "\<not> failbit i \<and> take 43 (bytes i) = header_text \<and> 55 \<le> length (bytes i) \<and>
      (stream_major i, stream_minor i) = (0, 0) \<longrightarrow>
      Forest_Deserialize td i =
        (case read_trees td (nat (sint (stream_tree_count i)))
                (i\<lparr>bytes := drop 55 (bytes i)\<rparr>) of
           Inl e \<Rightarrow> Inl e
         | Inr (trees, rest) \<Rightarrow> Inr trees)"
  proof (rule impI)
    assume h: "\<not> failbit i \<and> take 43 (bytes i) = header_text \<and> 55 \<le> length (bytes i) \<and>
      (stream_major i, stream_minor i) = (0, 0)"
    show "Forest_Deserialize td i =
        (case read_trees td (nat (sint (stream_tree_count i)))
                (i\<lparr>bytes := drop 55 (bytes i)\<rparr>) of
           Inl e \<Rightarrow> Inl e
         | Inr (trees, rest) \<Rightarrow> Inr trees)"
      by (rule go [OF conjunct1 [OF h] conjunct1 [OF conjunct2 [OF h]]
            conjunct1 [OF conjunct2 [OF conjunct2 [OF h]]]
            conjunct2 [OF conjunct2 [OF conjunct2 [OF h]]]])
  qed
  show ?thesis
    by (rule conjI [OF c1 conjI [OF c2 conjI [OF c3 c4]]])
qed

theorem Forest_Deserialize_header_version_witness:
  "take 43 (bytes wrong_stream) \<noteq> header_text \<and>
   Forest_Deserialize no_tree wrong_stream = Inl (RuntimeError ''Unsupported forest format.'') \<and>
   \<not> failbit version1_stream \<and> take 43 (bytes version1_stream) = header_text \<and>
   (stream_major version1_stream, stream_minor version1_stream) \<noteq> (0, 0) \<and>
   Forest_Deserialize no_tree version1_stream
     = Inl (RuntimeError ''Unsupported file version number.'') \<and>
   \<not> failbit empty_forest_stream \<and> take 43 (bytes empty_forest_stream) = header_text \<and>
   55 \<le> length (bytes empty_forest_stream) \<and>
   (stream_major empty_forest_stream, stream_minor empty_forest_stream) = (0, 0) \<and>
   Forest_Deserialize no_tree empty_forest_stream = Inr []"
proof -
  have w: "take 43 (bytes wrong_stream) \<noteq> header_text"
    by (simp add: wrong_stream_def header_text_def)
  have v: "\<not> failbit version1_stream" "take 43 (bytes version1_stream) = header_text"
    by (simp_all add: version1_stream_def header_text_facts(1))
  have vv: "(stream_major version1_stream, stream_minor version1_stream) \<noteq> (0, 0)"
    by (simp add: version1_stream_def stream_major_def header_text_facts(1) int_of_bytes_def
        NUL_def)
  have e: "\<not> failbit empty_forest_stream" "take 43 (bytes empty_forest_stream) = header_text"
    "55 \<le> length (bytes empty_forest_stream)"
    by (simp_all add: empty_forest_stream_def header_text_facts(1))
  have ev: "(stream_major empty_forest_stream, stream_minor empty_forest_stream) = (0, 0)"
    and ec: "stream_tree_count empty_forest_stream = 0"
    by (simp_all add: empty_forest_stream_def stream_major_def stream_minor_def
        stream_tree_count_def header_text_facts(1) int_of_bytes_def NUL_def)
  have r1: "Forest_Deserialize no_tree wrong_stream
          = Inl (RuntimeError ''Unsupported forest format.'')"
    by (rule conjunct1 [OF Forest_Deserialize_header_version [of wrong_stream no_tree],
          THEN mp, OF disjI2 [OF w]])
  have r2: "Forest_Deserialize no_tree version1_stream
          = Inl (RuntimeError ''Unsupported file version number.'')"
    by (rule conjunct1 [OF conjunct2 [OF
            Forest_Deserialize_header_version [of version1_stream no_tree]],
          THEN mp, OF conjI [OF v(1) conjI [OF v(2) vv]]])
  have "Forest_Deserialize no_tree empty_forest_stream
          = (case read_trees no_tree (nat (sint (stream_tree_count empty_forest_stream)))
                    (empty_forest_stream\<lparr>bytes := drop 55 (bytes empty_forest_stream)\<rparr>) of
               Inl e \<Rightarrow> Inl e
             | Inr (trees, rest) \<Rightarrow> Inr trees)"
    by (rule conjunct2 [OF conjunct2 [OF conjunct2 [OF
            Forest_Deserialize_header_version [of empty_forest_stream no_tree]]],
          THEN mp, OF conjI [OF e(1) conjI [OF e(2) conjI [OF e(3) ev]]]])
  then have r3: "Forest_Deserialize no_tree empty_forest_stream = Inr []"
    by (simp add: ec)
  show ?thesis
    by (intro conjI) (rule w r1 v vv r2 e ev r3)+
qed

subsection \<open>Information gain\<close>

lemma Histogram_Entropy_Fin: "Histogram_Entropy h = Fin (shannon_entropy h)"
  by (simp add: Histogram_Entropy_def shannon_entropy_def BinCount_def entropy_loop_Fin)

lemma NaN_plus [simp]: "x + NaN = NaN" "NaN + x = NaN"
  by (cases x; simp)+

lemma NaN_times [simp]: "x * NaN = NaN" "NaN * x = NaN"
  by (cases x; simp)+

lemma NaN_divide [simp]: "x / NaN = NaN" "NaN / x = NaN"
  by (cases x; simp)+

lemma NaN_minus [simp]: "x - NaN = NaN" "NaN - x = NaN"
  by (simp_all add: minus_dbl_def)

lemma NaN_compare [simp]: "\<not> x < NaN" "\<not> NaN < x" "\<not> x \<le> NaN" "\<not> NaN \<le> x"
  by (cases x; simp)+

lemma unat_sum:
  assumes "unat (m :: 32 word) + unat n < 2 ^ 32"
  shows "unat (m + n) = unat m + unat n"
  using assms by (simp add: unat_word_ariths)

lemma Classification_gain:
  "Classification_ComputeInformationGain p l r =
     (if unat (Histogram_SampleCount l + Histogram_SampleCount r) \<le> 1 then Fin 0
      else Fin (shannon_entropy p
                - (real (unat (Histogram_SampleCount l)) * shannon_entropy l
                   + real (unat (Histogram_SampleCount r)) * shannon_entropy r)
                  / real (unat (Histogram_SampleCount l + Histogram_SampleCount r))))"
proof -
  let ?nl = "Histogram_SampleCount l" and ?nr = "Histogram_SampleCount r"
  have le: "(?nl + ?nr \<le> 1) = (unat (?nl + ?nr) \<le> 1)"
    by (simp add: word_le_nat_alt)
  show ?thesis
  proof (cases "unat (?nl + ?nr) \<le> 1")
    case True
    then show ?thesis
      by (simp add: Classification_ComputeInformationGain_def le Let_def)
  next
    case False
    then have "real (unat (?nl + ?nr)) \<noteq> 0" by linarith
    then show ?thesis
      using False
      by (simp add: Classification_ComputeInformationGain_def le Let_def Histogram_Entropy_Fin
          of_uint_def minus_dbl_def)
  qed
qed

lemma zero_over_zero [simp]: "Fin 0 / Fin 0 = NaN"
  by (simp add: signed_inf_def)

lemma over_zero_not_finite: "Fin u / Fin 0 - Fin v / Fin 0 \<in> {NaN, PInf, NInf}"
  by (simp add: signed_inf_def minus_dbl_def)

lemma zero_times_not_finite:
  assumes "x \<in> {NaN, PInf, NInf}" "al \<in> {NaN, Fin 0}"
  shows "al * x = NaN"
  using assms by (auto simp: signed_inf_def)

lemma empty_alpha:
  assumes "g_sampleCount g = 0"
  shows "prior_alpha g \<in> {NaN, Fin 0}"
  using assms by (simp add: prior_alpha_def of_uint_def signed_inf_def)

lemma empty_blended:
  assumes "g_sampleCount g = 0"
  shows "blended_vxx g = NaN" "blended_vyy g = NaN" "blended_vxy g = NaN"
proof -
  have ml: "ml_cov g sab sa sb \<in> {NaN, PInf, NInf}" for sab sa sb
    using over_zero_not_finite [of sab "sa * sb"] assms by (simp add: ml_cov_def of_uint_def)
  have "prior_alpha g * ml_cov g sab sa sb = NaN" for sab sa sb
    by (rule zero_times_not_finite [OF ml empty_alpha [OF assms]])
  then show "blended_vxx g = NaN" "blended_vyy g = NaN" "blended_vxy g = NaN"
    by (simp_all add: blended_vxx_def blended_vyy_def blended_vxy_def)
qed

lemma empty_pdf:
  assumes "g_sampleCount g = 0"
  shows "\<exists>p. GetPdf g = Inr p \<and> GaussianPdf2d_Entropy p = NaN"
  by (simp add: GetPdf_def empty_blended [OF assms] GaussianPdf2d_new_def
      GaussianPdf2d_Entropy_def)

lemma Density_gain:
  assumes "GetPdf p = Inr pp" "GetPdf l = Inr pl" "GetPdf r = Inr pr"
  shows "DensityEstimation_ComputeInformationGain p l r =
     Inr (GaussianPdf2d_Entropy pp
          - (of_uint (Gaussian_SampleCount l) * GaussianPdf2d_Entropy pl
             + of_uint (Gaussian_SampleCount r) * GaussianPdf2d_Entropy pr)
            / of_uint (Gaussian_SampleCount l + Gaussian_SampleCount r))"
  by (simp add: DensityEstimation_ComputeInformationGain_def assms)

lemma Density_gain_empty_child:
  assumes "Gaussian_SampleCount l = 0 \<or> Gaussian_SampleCount r = 0"
    and "DensityEstimation_ComputeInformationGain p l r = Inr v"
  shows "v = NaN"
proof -
  from assms(2) obtain pp pl pr where pdfs: "GetPdf p = Inr pp" "GetPdf l = Inr pl" "GetPdf r = Inr pr"
    by (auto simp: DensityEstimation_ComputeInformationGain_def split: sum.splits)
  have "GaussianPdf2d_Entropy pl = NaN \<or> GaussianPdf2d_Entropy pr = NaN"
    using assms(1) empty_pdf [of l] empty_pdf [of r] pdfs
    by (auto simp: Gaussian_SampleCount_def)
  then show ?thesis
    using assms(2) unfolding Density_gain [OF pdfs] by auto
qed

lemma upt_0_2: "[0 ..< 2] = [0, 1]"
  by (simp add: upt_rec)

lemma example_hist_entropies:
  "shannon_entropy parent_hist = 1" "shannon_entropy left_hist = 0"
  "shannon_entropy right_hist = 0"
  by (simp_all add: shannon_entropy_def shannon_term_def parent_hist_def left_hist_def
      right_hist_def upt_0_2 log_divide)

lemma one_point_pdf: "\<exists>pp. GetPdf one_point_state = Inr pp"
  by (simp add: GetPdf_def GaussianPdf2d_new_def one_point_state_def blended_vxx_def
      blended_vyy_def blended_vxy_def ml_cov_def prior_alpha_def of_uint_def minus_dbl_def)

lemma Density_gain_example:
  "DensityEstimation_ComputeInformationGain one_point_state one_point_state empty_state = Inr NaN"
proof -
  obtain pp where pp: "GetPdf one_point_state = Inr pp"
    using one_point_pdf by blast
  obtain pe where pe: "GetPdf empty_state = Inr pe" "GaussianPdf2d_Entropy pe = NaN"
    using empty_pdf [of empty_state] by (auto simp: empty_state_def)
  show ?thesis
    unfolding Density_gain [OF pp pp pe(1)] pe(2) by simp
qed

text \<open>
  Claim C1, amended. Let \<open>N\<close> be the sum \<open>n\<^sub>L + n\<^sub>R\<close> as the code forms it, in
  \<^verbatim>\<open>unsigned int\<close>, that is modulo \<open>2\<^sup>3\<^sup>2\<close>; it is \<open>n\<^sub>L + n\<^sub>R\<close> whenever that is below \<open>2\<^sup>3\<^sup>2\<close>.
  For every input the classification context returns 0 when \<open>N \<le> 1\<close> and otherwise the
  parent's entropy minus \<open>(n\<^sub>L H\<^sub>L + n\<^sub>R H\<^sub>R) / N\<close>. The density-estimation context returns
  the same expression over the entropies of the three fitted pdfs whenever the three can
  be fitted, with no special case: as soon as one child is empty, whatever it returns is
  NaN.
\<close>

theorem ComputeInformationGain_formula:
  "Classification_ComputeInformationGain hp hl hr =
     (if unat (Histogram_SampleCount hl + Histogram_SampleCount hr) \<le> 1 then Fin 0
      else Fin (shannon_entropy hp
                - (real (unat (Histogram_SampleCount hl)) * shannon_entropy hl
                   + real (unat (Histogram_SampleCount hr)) * shannon_entropy hr)
                  / real (unat (Histogram_SampleCount hl + Histogram_SampleCount hr)))) \<and>
   (unat (Histogram_SampleCount hl) + unat (Histogram_SampleCount hr) < 2 ^ 32 \<longrightarrow>
      unat (Histogram_SampleCount hl + Histogram_SampleCount hr)
        = unat (Histogram_SampleCount hl) + unat (Histogram_SampleCount hr)) \<and>
   (GetPdf p = Inr pp \<and> GetPdf l = Inr pl \<and> GetPdf r = Inr pr \<longrightarrow>
      DensityEstimation_ComputeInformationGain p l r =
        Inr (GaussianPdf2d_Entropy pp
             - (of_uint (Gaussian_SampleCount l) * GaussianPdf2d_Entropy pl
                + of_uint (Gaussian_SampleCount r) * GaussianPdf2d_Entropy pr)
               / of_uint (Gaussian_SampleCount l + Gaussian_SampleCount r))) \<and>
   (unat (Gaussian_SampleCount l) + unat (Gaussian_SampleCount r) < 2 ^ 32 \<longrightarrow>
      unat (Gaussian_SampleCount l + Gaussian_SampleCount r)
        = unat (Gaussian_SampleCount l) + unat (Gaussian_SampleCount r)) \<and>
   ((Gaussian_SampleCount l = 0 \<or> Gaussian_SampleCount r = 0) \<and>
    DensityEstimation_ComputeInformationGain p l r = Inr v \<longrightarrow> v = NaN)"
proof -
  have c: "Classification_ComputeInformationGain hp hl hr =
     (if unat (Histogram_SampleCount hl + Histogram_SampleCount hr) \<le> 1 then Fin 0
      else Fin (shannon_entropy hp
                - (real (unat (Histogram_SampleCount hl)) * shannon_entropy hl
                   + real (unat (Histogram_SampleCount hr)) * shannon_entropy hr)
                  / real (unat (Histogram_SampleCount hl + Histogram_SampleCount hr))))"
    by (rule Classification_gain)
  show ?thesis
    using c unat_sum Density_gain Density_gain_empty_child by blast
qed

theorem ComputeInformationGain_formula_witness:
  "unat (Histogram_SampleCount left_hist) + unat (Histogram_SampleCount right_hist) < 2 ^ 32 \<and>
   unat (Histogram_SampleCount left_hist + Histogram_SampleCount right_hist) = 2 \<and>
   Classification_ComputeInformationGain parent_hist left_hist right_hist = Fin 1 \<and>
   (\<exists>pp. GetPdf one_point_state = Inr pp \<and>
      DensityEstimation_ComputeInformationGain one_point_state one_point_state one_point_state =
        Inr (GaussianPdf2d_Entropy pp
             - (of_uint 1 * GaussianPdf2d_Entropy pp + of_uint 1 * GaussianPdf2d_Entropy pp)
               / of_uint 2)) \<and>
   unat (Gaussian_SampleCount one_point_state) + unat (Gaussian_SampleCount one_point_state)
     < 2 ^ 32 \<and>
   unat (Gaussian_SampleCount one_point_state + Gaussian_SampleCount one_point_state) = 2 \<and>
   Gaussian_SampleCount empty_state = 0 \<and>
   DensityEstimation_ComputeInformationGain one_point_state one_point_state empty_state
     = Inr NaN"
proof -
  have n: "Histogram_SampleCount left_hist = 1" "Histogram_SampleCount right_hist = 1"
    by (simp_all add: Histogram_SampleCount_def left_hist_def right_hist_def)
  have g1: "Gaussian_SampleCount one_point_state = 1"
    and g0: "Gaussian_SampleCount empty_state = 0"
    by (simp_all add: Gaussian_SampleCount_def one_point_state_def empty_state_def)
  obtain pp where pp: "GetPdf one_point_state = Inr pp"
    using one_point_pdf by blast
  note inst = ComputeInformationGain_formula [of parent_hist left_hist right_hist
      one_point_state pp one_point_state pp one_point_state pp]
  have c: "Classification_ComputeInformationGain parent_hist left_hist right_hist = Fin 1"
    using inst by (simp add: n example_hist_entropies)
  have d: "DensityEstimation_ComputeInformationGain one_point_state one_point_state one_point_state =
        Inr (GaussianPdf2d_Entropy pp
             - (of_uint 1 * GaussianPdf2d_Entropy pp + of_uint 1 * GaussianPdf2d_Entropy pp)
               / of_uint 2)"
    using inst pp by (simp add: g1)
  have e: "DensityEstimation_ComputeInformationGain one_point_state one_point_state empty_state
     = Inr NaN"
    by (rule Density_gain_example)
  show ?thesis
    using n g1 c pp d g0 e by auto
qed

text \<open>
  Claim C1 as stated, for density estimation with \<open>n\<^sub>L = 1\<close> and \<open>n\<^sub>R = 0\<close>: the gain is NaN,
  not 0.
\<close>

theorem Density_gain_not_zero_counterexample:
  "unat (Gaussian_SampleCount one_point_state) + unat (Gaussian_SampleCount empty_state) \<le> 1 \<and>
   DensityEstimation_ComputeInformationGain one_point_state one_point_state empty_state
     = Inr NaN \<and>
   DensityEstimation_ComputeInformationGain one_point_state one_point_state empty_state
     \<noteq> Inr (Fin 0)"
proof -
  have "unat (Gaussian_SampleCount one_point_state) + unat (Gaussian_SampleCount empty_state) \<le> 1"
    by (simp add: Gaussian_SampleCount_def one_point_state_def empty_state_def)
  then show ?thesis
    unfolding Density_gain_example by simp
qed

subsection \<open>The entropy of a linear fit\<close>

lemma LinearFit_Aggregate_symmetric:
  assumes "LinearFit_Aggregate d i s = Inr s'" "XT_X_21 s = XT_X_12 s"
  shows "XT_X_21 s' = XT_X_12 s'"
  using assms by (auto simp: LinearFit_Aggregate_def LinearFit_add_def split: sum.splits)

lemma LinearFit_AggregateAll_symmetric:
  assumes "LinearFit_AggregateAll d is s = Inr s'" "XT_X_21 s = XT_X_12 s"
  shows "XT_X_21 s' = XT_X_12 s'"
  using assms
proof (induction "is" arbitrary: s)
  case Nil
  then show ?case by simp
next
  case (Cons i "is")
  then obtain s1 where s1: "LinearFit_Aggregate d i s = Inr s1"
    and rest: "LinearFit_AggregateAll d is s1 = Inr s'"
    by (auto split: sum.splits)
  show ?case
    by (rule Cons.IH [OF rest LinearFit_Aggregate_symmetric [OF s1 Cons.prems(2)]])
qed

lemma LinearFit_Clear_symmetric: "XT_X_21 (LinearFit_Clear s) = XT_X_12 (LinearFit_Clear s)"
  by (simp add: LinearFit_Clear_def)

lemma word_less_3: "(n < (3 :: 32 word)) = (unat n < 3)"
  by (simp add: word_less_nat_alt)

lemma line_fit_reached:
  "LinearFit_AggregateAll line_data [0, 1, 2] (LinearFit_Clear uncleared_fit) = Inr line_fit"
  by (simp add: LinearFit_Aggregate_def GetDataPoint_def GetTarget_def line_data_def
      LinearFit_add_def LinearFit_Clear_def uncleared_fit_def line_fit_def)

text \<open>
  Claim C5. For every linear-fit aggregator whose stored matrix is symmetric, as it is after
  \<^verbatim>\<open>Clear()\<close> and any number of aggregations, \<^verbatim>\<open>Entropy()\<close> is \<open>+\<infinity>\<close> when the sample count is
  below 3 or \<open>det (X\<^sup>T X) = 0\<close>, and otherwise \<open>0.5 log ((2 Pi E)\<^sup>2 det (X\<^sup>T X))\<close>, with the
  constants \<^verbatim>\<open>Pi\<close> and \<^verbatim>\<open>E\<close> of the aggregator.
\<close>

theorem LinearFit_Entropy_formula:
  assumes "XT_X_21 s = XT_X_12 s"
  shows "LinearFit_Entropy s =
     (if unat (LinearFit_SampleCount s) < 3 \<or> det_XT_X s = 0 then PInf
      else Fin (1 / 2) * dlog (Fin ((2 * Pi * E)\<^sup>2 * det_XT_X s)))"
  using assms
  by (simp add: LinearFit_Entropy_def LinearFit_SampleCount_def det_XT_X_def word_less_3 Let_def)

theorem LinearFit_Entropy_formula_witness:
  "LinearFit_AggregateAll line_data [0, 1, 2] (LinearFit_Clear uncleared_fit) = Inr line_fit \<and>
   XT_X_21 line_fit = XT_X_12 line_fit \<and>
   LinearFit_Entropy line_fit = Fin (1 / 2) * dlog (Fin ((2 * Pi * E)\<^sup>2 * 6)) \<and>
   XT_X_21 (LinearFit_Clear uncleared_fit) = XT_X_12 (LinearFit_Clear uncleared_fit) \<and>
   LinearFit_Entropy (LinearFit_Clear uncleared_fit) = PInf"
proof -
  have sym: "XT_X_21 line_fit = XT_X_12 line_fit"
    by (rule LinearFit_AggregateAll_symmetric [OF line_fit_reached LinearFit_Clear_symmetric])
  have d: "det_XT_X line_fit = 6" "unat (LinearFit_SampleCount line_fit) = 3"
    by (simp_all add: det_XT_X_def LinearFit_SampleCount_def line_fit_def)
  have c: "unat (LinearFit_SampleCount (LinearFit_Clear uncleared_fit)) = 0"
    by (simp add: LinearFit_SampleCount_def LinearFit_Clear_def)
  show ?thesis
    using line_fit_reached sym LinearFit_Clear_symmetric [of uncleared_fit]
      LinearFit_Entropy_formula [OF sym]
      LinearFit_Entropy_formula [OF LinearFit_Clear_symmetric [of uncleared_fit]]
    by (simp add: d c)
qed

subsection \<open>Aggregating into the semi-supervised aggregator\<close>

lemma partly_labelled_points:
  "GetDataPoint partly_labelled 0 0 = Inr 0" "GetDataPoint partly_labelled 0 1 = Inr 0"
  "GetDataPoint partly_labelled 1 0 = Inr 1" "GetDataPoint partly_labelled 1 1 = Inr 0"
  by (simp_all add: GetDataPoint_def partly_labelled_def)

lemma partly_labelled_labels:
  "GetIntegerLabel partly_labelled 0 = Inr 0" "GetIntegerLabel partly_labelled 1 = Inr (- 1)"
  by (simp_all add: GetIntegerLabel_def HasLabels_def partly_labelled_def)

lemma unlabelled_point_points:
  "GetDataPoint unlabelled_point 0 0 = Inr 1" "GetDataPoint unlabelled_point 0 1 = Inr 1"
  by (simp_all add: GetDataPoint_def unlabelled_point_def)

lemma mislabelled_point_points:
  "GetDataPoint mislabelled_point 0 0 = Inr 1" "GetDataPoint mislabelled_point 0 1 = Inr 1"
  by (simp_all add: GetDataPoint_def mislabelled_point_def)

text \<open>
  Claim C7. For every sample of the collection, \<^verbatim>\<open>Aggregate(data, index)\<close> leaves the
  Gaussian sub-aggregator with the sample folded in, whether it returns or not: the count
  is one more, \<^verbatim>\<open>sx_\<close>, \<^verbatim>\<open>sy_\<close>, \<^verbatim>\<open>sxx_\<close>, \<^verbatim>\<open>syy_\<close> have grown by \<open>x\<close>, \<open>y\<close>, \<open>x\<^sup>2\<close>, \<open>y\<^sup>2\<close> and
  \<^verbatim>\<open>sxy_\<close> by the \<^verbatim>\<open>float\<close> product of \<open>x\<close> and \<open>y\<close>. When the label is a class in \<open>[0, 4)\<close>
  the call returns and the histogram has one more sample in the bin of the label; when the
  label is \<open>-1\<close> (\<^verbatim>\<open>UnknownClassLabel\<close>) the call returns and the histogram is unchanged. In
  a collection without labels the sample has no label: the call throws after the Gaussian
  has been updated, and the histogram is unchanged. A label other than \<open>-1\<close> outside
  \<open>[0, 4)\<close> sends the histogram out of the bounds of its bins.
\<close>

theorem SemiSupervised_Aggregate_folds:
  assumes px: "GetDataPoint d i 0 = Inr x" and py: "GetDataPoint d i 1 = Inr y"
  shows "UnknownClassLabel = - 1 \<and>
         (\<exists>g'. g_sampleCount g' = g_sampleCount (GetGaussianAggregator2d s) + 1 \<and>
            g_sx g' = g_sx (GetGaussianAggregator2d s) + x \<and>
            g_sy g' = g_sy (GetGaussianAggregator2d s) + y \<and>
            g_sxx g' = g_sxx (GetGaussianAggregator2d s) + x\<^sup>2 \<and>
            g_syy g' = g_syy (GetGaussianAggregator2d s) + y\<^sup>2 \<and>
            g_sxy g' = g_sxy (GetGaussianAggregator2d s) + float_mul x y \<and>
            g_a g' = g_a (GetGaussianAggregator2d s) \<and>
            g_b g' = g_b (GetGaussianAggregator2d s) \<and>
            Gaussian_Aggregate d i (GetGaussianAggregator2d s) = Inr g' \<and>
            (\<not> HasLabels d \<longrightarrow>
               SemiSupervised_Aggregate d i s =
                 Raised (RuntimeError ''Data have no associated class labels.'')
                   (s\<lparr>gaussianAggregator2d := g'\<rparr>)) \<and>
            (GetIntegerLabel d i = Inr (- 1) \<longrightarrow>
               SemiSupervised_Aggregate d i s = Returned (s\<lparr>gaussianAggregator2d := g'\<rparr>)) \<and>
            (GetIntegerLabel d i = Inr l \<and> 0 \<le> l \<and> l < 4 \<longrightarrow>
               SemiSupervised_Aggregate d i s =
                 Returned (s\<lparr>gaussianAggregator2d := g',
                             histogramAggregator :=
                               (GetHistogramAggregator s)
                                 \<lparr>bins := (bins (GetHistogramAggregator s))
                                     [nat l := bins (GetHistogramAggregator s) ! nat l + 1],
                                  h_sampleCount :=
                                    h_sampleCount (GetHistogramAggregator s) + 1\<rparr>\<rparr>)) \<and>
            (GetIntegerLabel d i = Inr l \<and> l \<noteq> - 1 \<and> \<not> (0 \<le> l \<and> l < 4) \<longrightarrow>
               SemiSupervised_Aggregate d i s =
                 Raised UndefinedBehaviour (s\<lparr>gaussianAggregator2d := g'\<rparr>)))"
proof -
  let ?g = "Gaussian_add x y (gaussianAggregator2d s)"
  have g: "Gaussian_Aggregate d i (gaussianAggregator2d s) = Inr ?g"
    by (rule Gaussian_Aggregate_ok [OF px py])
  have fields: "g_sampleCount ?g = g_sampleCount (gaussianAggregator2d s) + 1"
    "g_sx ?g = g_sx (gaussianAggregator2d s) + x"
    "g_sy ?g = g_sy (gaussianAggregator2d s) + y"
    "g_sxx ?g = g_sxx (gaussianAggregator2d s) + x\<^sup>2"
    "g_syy ?g = g_syy (gaussianAggregator2d s) + y\<^sup>2"
    "g_sxy ?g = g_sxy (gaussianAggregator2d s) + float_mul x y"
    "g_a ?g = g_a (gaussianAggregator2d s)"
    "g_b ?g = g_b (gaussianAggregator2d s)"
    by (simp_all add: Gaussian_add_def)
  have none: "SemiSupervised_Aggregate d i s =
                 Raised (RuntimeError ''Data have no associated class labels.'')
                   (s\<lparr>gaussianAggregator2d := ?g\<rparr>)"
    if "\<not> HasLabels d"
    using that by (simp add: SemiSupervised_Aggregate_def g GetIntegerLabel_def)
  have unknown: "SemiSupervised_Aggregate d i s = Returned (s\<lparr>gaussianAggregator2d := ?g\<rparr>)"
    if "GetIntegerLabel d i = Inr (- 1)"
    using that by (simp add: SemiSupervised_Aggregate_def g UnknownClassLabel_def)
  have known: "SemiSupervised_Aggregate d i s =
                 Returned (s\<lparr>gaussianAggregator2d := ?g,
                             histogramAggregator :=
                               (histogramAggregator s)
                                 \<lparr>bins := (bins (histogramAggregator s))
                                     [nat l := bins (histogramAggregator s) ! nat l + 1],
                                  h_sampleCount := h_sampleCount (histogramAggregator s) + 1\<rparr>\<rparr>)"
    if "GetIntegerLabel d i = Inr l \<and> 0 \<le> l \<and> l < 4"
    using that
    by (auto simp: SemiSupervised_Aggregate_def g UnknownClassLabel_def Histogram_Aggregate_def)
  have outside: "SemiSupervised_Aggregate d i s =
                 Raised UndefinedBehaviour (s\<lparr>gaussianAggregator2d := ?g\<rparr>)"
    if "GetIntegerLabel d i = Inr l \<and> l \<noteq> - 1 \<and> \<not> (0 \<le> l \<and> l < 4)"
    using that
    by (auto simp: SemiSupervised_Aggregate_def g UnknownClassLabel_def Histogram_Aggregate_def)
  have u: "UnknownClassLabel = - 1"
    by (simp add: UnknownClassLabel_def)
  show ?thesis
    unfolding GetGaussianAggregator2d_def GetHistogramAggregator_def
    using u g fields none unknown known outside
    by (intro conjI exI [of _ ?g] impI) blast+
qed

theorem SemiSupervised_Aggregate_folds_witness:
  "GetDataPoint partly_labelled 0 0 = Inr 0 \<and> GetDataPoint partly_labelled 0 1 = Inr 0 \<and>
   GetIntegerLabel partly_labelled 0 = Inr 0 \<and>
   SemiSupervised_Aggregate partly_labelled 0 fresh_semi =
     Returned (fresh_semi
       \<lparr>gaussianAggregator2d :=
          \<lparr>g_sampleCount = 1, g_sx = 0, g_sy = 0, g_sxx = 0, g_syy = 0, g_sxy = 0,
           g_a = 10, g_b = 400\<rparr>,
        histogramAggregator := \<lparr>bins = [1, 0, 7, 7], binCount = 2, h_sampleCount = 1\<rparr>\<rparr>) \<and>
   GetDataPoint partly_labelled 1 0 = Inr 1 \<and> GetDataPoint partly_labelled 1 1 = Inr 0 \<and>
   GetIntegerLabel partly_labelled 1 = Inr (- 1) \<and>
   SemiSupervised_Aggregate partly_labelled 1 fresh_semi =
     Returned (fresh_semi
       \<lparr>gaussianAggregator2d :=
          \<lparr>g_sampleCount = 1, g_sx = 1, g_sy = 0, g_sxx = 1, g_syy = 0, g_sxy = 0,
           g_a = 10, g_b = 400\<rparr>\<rparr>) \<and>
   GetDataPoint unlabelled_point 0 0 = Inr 1 \<and> GetDataPoint unlabelled_point 0 1 = Inr 1 \<and>
   \<not> HasLabels unlabelled_point \<and>
   SemiSupervised_Aggregate unlabelled_point 0 fresh_semi =
     Raised (RuntimeError ''Data have no associated class labels.'')
       (fresh_semi
          \<lparr>gaussianAggregator2d :=
             \<lparr>g_sampleCount = 1, g_sx = 1, g_sy = 1, g_sxx = 1, g_syy = 1, g_sxy = 1,
              g_a = 10, g_b = 400\<rparr>\<rparr>) \<and>
   GetDataPoint mislabelled_point 0 0 = Inr 1 \<and> GetDataPoint mislabelled_point 0 1 = Inr 1 \<and>
   GetIntegerLabel mislabelled_point 0 = Inr 7 \<and>
   SemiSupervised_Aggregate mislabelled_point 0 fresh_semi =
     Raised UndefinedBehaviour
       (fresh_semi
          \<lparr>gaussianAggregator2d :=
             \<lparr>g_sampleCount = 1, g_sx = 1, g_sy = 1, g_sxx = 1, g_syy = 1, g_sxy = 1,
              g_a = 10, g_b = 400\<rparr>\<rparr>)"
proof -
  have rec: "g = \<lparr>g_sampleCount = g_sampleCount g, g_sx = g_sx g, g_sy = g_sy g,
                  g_sxx = g_sxx g, g_syy = g_syy g, g_sxy = g_sxy g,
                  g_a = g_a g, g_b = g_b g\<rparr>" for g :: GaussianAggregator2d
    by simp
  have l7: "GetIntegerLabel mislabelled_point 0 = Inr 7"
    and nl: "\<not> HasLabels unlabelled_point"
    by (simp_all add: GetIntegerLabel_def HasLabels_def mislabelled_point_def
        unlabelled_point_def)
  have fresh: "GetGaussianAggregator2d fresh_semi =
       \<lparr>g_sampleCount = 0, g_sx = 0, g_sy = 0, g_sxx = 0, g_syy = 0, g_sxy = 0,
        g_a = 10, g_b = 400\<rparr>"
    "GetHistogramAggregator fresh_semi = \<lparr>bins = [0, 0, 7, 7], binCount = 2, h_sampleCount = 0\<rparr>"
    by (simp_all add: GetGaussianAggregator2d_def GetHistogramAggregator_def fresh_semi_def)
  have known: "SemiSupervised_Aggregate partly_labelled 0 fresh_semi =
     Returned (fresh_semi
       \<lparr>gaussianAggregator2d :=
          \<lparr>g_sampleCount = 1, g_sx = 0, g_sy = 0, g_sxx = 0, g_syy = 0, g_sxy = 0,
           g_a = 10, g_b = 400\<rparr>,
        histogramAggregator := \<lparr>bins = [1, 0, 7, 7], binCount = 2, h_sampleCount = 1\<rparr>\<rparr>)"
  proof -
    from SemiSupervised_Aggregate_folds [OF partly_labelled_points(1,2), of fresh_semi 0]
    obtain g' where g': "g_sampleCount g' = 1" "g_sx g' = 0" "g_sy g' = 0" "g_sxx g' = 0"
      "g_syy g' = 0" "g_sxy g' = 0" "g_a g' = 10" "g_b g' = 400"
      and r: "SemiSupervised_Aggregate partly_labelled 0 fresh_semi =
                Returned (fresh_semi\<lparr>gaussianAggregator2d := g',
                  histogramAggregator := \<lparr>bins = [1, 0, 7, 7], binCount = 2, h_sampleCount = 1\<rparr>\<rparr>)"
      unfolding fresh using partly_labelled_labels(1) by auto
    show ?thesis
      unfolding r using rec [of g'] g' by simp
  qed
  have unknown: "SemiSupervised_Aggregate partly_labelled 1 fresh_semi =
     Returned (fresh_semi
       \<lparr>gaussianAggregator2d :=
          \<lparr>g_sampleCount = 1, g_sx = 1, g_sy = 0, g_sxx = 1, g_syy = 0, g_sxy = 0,
           g_a = 10, g_b = 400\<rparr>\<rparr>)"
  proof -
    from SemiSupervised_Aggregate_folds [OF partly_labelled_points(3,4), of fresh_semi]
    obtain g' where g': "g_sampleCount g' = 1" "g_sx g' = 1" "g_sy g' = 0" "g_sxx g' = 1"
      "g_syy g' = 0" "g_sxy g' = 0" "g_a g' = 10" "g_b g' = 400"
      and r: "SemiSupervised_Aggregate partly_labelled 1 fresh_semi =
                Returned (fresh_semi\<lparr>gaussianAggregator2d := g'\<rparr>)"
      unfolding fresh using partly_labelled_labels(2) by auto
    show ?thesis
      unfolding r using rec [of g'] g' by simp
  qed
  have none: "SemiSupervised_Aggregate unlabelled_point 0 fresh_semi =
     Raised (RuntimeError ''Data have no associated class labels.'')
       (fresh_semi
          \<lparr>gaussianAggregator2d :=
             \<lparr>g_sampleCount = 1, g_sx = 1, g_sy = 1, g_sxx = 1, g_syy = 1, g_sxy = 1,
              g_a = 10, g_b = 400\<rparr>\<rparr>)"
  proof -
    from SemiSupervised_Aggregate_folds [OF unlabelled_point_points, of fresh_semi]
    obtain g' where g': "g_sampleCount g' = 1" "g_sx g' = 1" "g_sy g' = 1" "g_sxx g' = 1"
      "g_syy g' = 1" "g_sxy g' = 1" "g_a g' = 10" "g_b g' = 400"
      and r: "SemiSupervised_Aggregate unlabelled_point 0 fresh_semi =
                Raised (RuntimeError ''Data have no associated class labels.'')
                  (fresh_semi\<lparr>gaussianAggregator2d := g'\<rparr>)"
      unfolding fresh using nl by auto
    show ?thesis
      unfolding r using rec [of g'] g' by simp
  qed
  have outside: "SemiSupervised_Aggregate mislabelled_point 0 fresh_semi =
     Raised UndefinedBehaviour
       (fresh_semi
          \<lparr>gaussianAggregator2d :=
             \<lparr>g_sampleCount = 1, g_sx = 1, g_sy = 1, g_sxx = 1, g_syy = 1, g_sxy = 1,
              g_a = 10, g_b = 400\<rparr>\<rparr>)"
  proof -
    from SemiSupervised_Aggregate_folds [OF mislabelled_point_points, of fresh_semi 7]
    obtain g' where g': "g_sampleCount g' = 1" "g_sx g' = 1" "g_sy g' = 1" "g_sxx g' = 1"
      "g_syy g' = 1" "g_sxy g' = 1" "g_a g' = 10" "g_b g' = 400"
      and r: "SemiSupervised_Aggregate mislabelled_point 0 fresh_semi =
                Raised UndefinedBehaviour (fresh_semi\<lparr>gaussianAggregator2d := g'\<rparr>)"
      unfolding fresh using l7 by auto
    show ?thesis
      unfolding r using rec [of g'] g' by simp
  qed
  show ?thesis
    using partly_labelled_points partly_labelled_labels unlabelled_point_points
      mislabelled_point_points l7 nl known unknown none outside
    by simp
qed

subsection \<open>Termination thresholds\<close>

lemma below_positive_threshold:
  assumes "0 < c"
  shows "split_rejected (\<lambda>g. g < Fin c) gain = (gain < Fin c)"
  using assms by (cases gain) (auto simp: split_rejected_def)

text \<open>
  Claim C10. Each context's \<^verbatim>\<open>ShouldTerminate\<close> is the test \<open>gain < c\<close> with \<open>c\<close> = 0.01
  (classification), 0.25 (density estimation), 0.05 (regression), 0.4 (semi-supervised),
  whatever the three statistics are; and the trainer's rejection of the best split, which
  also fires at gain 0, happens exactly when the gain is below \<open>c\<close>.
\<close>

theorem ShouldTerminate_thresholds:
  "Classification_ShouldTerminate hp hl hr gain = (gain < Fin (1 / 100)) \<and>
   DensityEstimation_ShouldTerminate gp gl gr gain = (gain < Fin (25 / 100)) \<and>
   Regression_ShouldTerminate lp ll lr gain = (gain < Fin (5 / 100)) \<and>
   SemiSupervised_ShouldTerminate sp sl sr gain = (gain < Fin (4 / 10)) \<and>
   Classification_ShouldTerminate hp hl hr gain
     = Classification_ShouldTerminate hp' hl' hr' gain \<and>
   DensityEstimation_ShouldTerminate gp gl gr gain
     = DensityEstimation_ShouldTerminate gp' gl' gr' gain \<and>
   Regression_ShouldTerminate lp ll lr gain = Regression_ShouldTerminate lp' ll' lr' gain \<and>
   SemiSupervised_ShouldTerminate sp sl sr gain
     = SemiSupervised_ShouldTerminate sp' sl' sr' gain \<and>
   Classification_ShouldTerminate hp hl hr (Fin x) = (x < 1 / 100) \<and>
   DensityEstimation_ShouldTerminate gp gl gr (Fin x) = (x < 25 / 100) \<and>
   Regression_ShouldTerminate lp ll lr (Fin x) = (x < 5 / 100) \<and>
   SemiSupervised_ShouldTerminate sp sl sr (Fin x) = (x < 4 / 10) \<and>
   split_rejected (Classification_ShouldTerminate hp hl hr) gain = (gain < Fin (1 / 100)) \<and>
   split_rejected (DensityEstimation_ShouldTerminate gp gl gr) gain = (gain < Fin (25 / 100)) \<and>
   split_rejected (Regression_ShouldTerminate lp ll lr) gain = (gain < Fin (5 / 100)) \<and>
   split_rejected (SemiSupervised_ShouldTerminate sp sl sr) gain = (gain < Fin (4 / 10))"
proof -
  have c: "Classification_ShouldTerminate hp hl hr = (\<lambda>g. g < Fin (1 / 100))"
    and d: "DensityEstimation_ShouldTerminate gp gl gr = (\<lambda>g. g < Fin (25 / 100))"
    and r: "Regression_ShouldTerminate lp ll lr = (\<lambda>g. g < Fin (5 / 100))"
    and s: "SemiSupervised_ShouldTerminate sp sl sr = (\<lambda>g. g < Fin (4 / 10))"
    by (simp_all add: fun_eq_iff Classification_ShouldTerminate_def
        DensityEstimation_ShouldTerminate_def Regression_ShouldTerminate_def
        SemiSupervised_ShouldTerminate_def)
  show ?thesis
    unfolding c d r s
    by (simp add: below_positive_threshold Classification_ShouldTerminate_def
        DensityEstimation_ShouldTerminate_def Regression_ShouldTerminate_def
        SemiSupervised_ShouldTerminate_def)
qed

end
